theory Spec2Isabelle
  imports Main
begin

section \<open>JavaScript strings\<close>

text \<open>
  A JavaScript string is modelled as a \<open>string\<close>: a list of 8-bit code units, that is
  the Latin-1 part of UTF-16, which covers every identifier the backend issues.
  \<open>String.prototype.trim\<close> removes white space and line terminators from both ends; below
  256 these are the code units 9 to 13, 32 and 160. \<open>toLowerCase\<close> maps \<open>A\<close> to \<open>Z\<close> and
  the Latin-1 capitals (192 to 222, without the multiplication sign 215) to the code unit
  32 above, and nothing else.
\<close>

definition isWhiteSpace :: "char \<Rightarrow> bool" where
  "isWhiteSpace c =
     (c \<in> set [CHR 0x09, CHR 0x0A, CHR 0x0B, CHR 0x0C, CHR 0x0D, CHR 0x20, CHR 0xA0])"

definition trim :: "string \<Rightarrow> string" where
  "trim s = rev (dropWhile isWhiteSpace (rev (dropWhile isWhiteSpace s)))"

definition toLowerCaseChar :: "char \<Rightarrow> char" where
  "toLowerCaseChar c =
     (let n = (of_char c :: nat)
      in if (65 \<le> n \<and> n \<le> 90) \<or> (192 \<le> n \<and> n \<le> 222 \<and> n \<noteq> 215)
         then char_of (n + 32) else c)"

definition toLowerCase :: "string \<Rightarrow> string" where
  "toLowerCase s = map toLowerCaseChar s"

text \<open>\<open>s.startsWith(p)\<close>.\<close>

definition startsWith :: "string \<Rightarrow> string \<Rightarrow> bool" where
  "startsWith s p = (take (length p) s = p)"

text \<open>\<open>xs.join(sep)\<close> on an array of strings.\<close>

fun join :: "string \<Rightarrow> string list \<Rightarrow> string" where
  "join sep [] = []"
| "join sep [x] = x"
| "join sep (x # y # ys) = x @ sep @ join sep (y # ys)"

section \<open>Identifier normalisation and the sender allow list\<close>

text \<open>
  \<open>trimmed.replace(/^(wechat-channel|wechat|wx):/i, "")\<close>: the pattern is anchored at the
  start and not global, so at most one prefix is removed. Without the \<open>u\<close> flag the \<open>i\<close>
  flag lets a pattern letter match only its own two ASCII cases, which is what comparing
  the lower-cased head of the subject with the lower-case pattern does. The alternatives
  are tried in the order written.
\<close>

definition stripChannelPrefix :: "string \<Rightarrow> string" where
  "stripChannelPrefix s =
     (if toLowerCase (take 15 s) = ''wechat-channel:'' then drop 15 s
      else if toLowerCase (take 7 s) = ''wechat:'' then drop 7 s
      else if toLowerCase (take 3 s) = ''wx:'' then drop 3 s
      else s)"

text \<open>
  \<open>normalizeWechatTarget(raw?: string | null)\<close>: \<open>None\<close> is \<open>undefined\<close>/\<open>null\<close>, for the
  argument and for the result.
\<close>

definition normalizeWechatTarget :: "string option \<Rightarrow> string option" where
  "normalizeWechatTarget raw =
     (case map_option trim raw of
        None \<Rightarrow> None
      | Some trimmed \<Rightarrow>
          if trimmed = [] then None else Some (stripChannelPrefix trimmed))"

text \<open>
  \<open>normalizeAllowEntry(entry: string | number)\<close> starts with \<open>String(entry)\<close>; an entry is
  modelled by that string, so a numeric entry stands here as its decimal rendering.
\<close>

definition normalizeAllowEntry :: "string \<Rightarrow> string" where
  "normalizeAllowEntry entry =
     (let raw = trim entry
      in if raw = [] then []
         else if raw = ''*'' then ''*''
         else (case normalizeWechatTarget (Some raw) of
                 Some target \<Rightarrow> target
               | None \<Rightarrow> raw))"

text \<open>\<open>None\<close> is an \<open>allowFrom\<close> that is not an array.\<close>

definition normalizeAllowFromEntries :: "string list option \<Rightarrow> string list" where
  "normalizeAllowFromEntries allowFrom =
     (case allowFrom of
        None \<Rightarrow> []
      | Some entries \<Rightarrow>
          filter (\<lambda>entry. entry \<noteq> []) (map trim (map normalizeAllowEntry entries)))"

text \<open>\<open>xs.includes(x)\<close> scans the array from the left; \<open>xs.some(p)\<close> is \<open>list_ex\<close>.\<close>

primrec arrayIncludes :: "'a list \<Rightarrow> 'a \<Rightarrow> bool" where
  "arrayIncludes [] y = False"
| "arrayIncludes (x # xs) y = (if x = y then True else arrayIncludes xs y)"

definition isSenderAllowed :: "string \<Rightarrow> string list \<Rightarrow> bool" where
  "isSenderAllowed senderId allowFrom =
     (if arrayIncludes allowFrom ''*'' then True
      else
        let normalizedSender = toLowerCase (normalizeAllowEntry senderId)
        in list_ex (\<lambda>entry. toLowerCase (normalizeAllowEntry entry) = normalizedSender)
             allowFrom)"

text \<open>
  The normalisation as the specification words it: trim, strip a recognised channel
  prefix, lower-case. It is compared with the code's \<open>normalizeAllowEntry\<close> below.
\<close>

definition specNormalize :: "string \<Rightarrow> string" where
  "specNormalize s = toLowerCase (stripChannelPrefix (trim s))"

section \<open>Group table, mention requirement, member allow list\<close>

text \<open>
  \<open>WechatGroupConfig\<close>: an absent optional field is \<open>None\<close>. The tool policies of an entry
  play no part in admission and are left out. A \<open>Record<string, V>\<close> is an association
  list read with \<open>map_of\<close>; \<open>groups[key]\<close> is taken to find own properties only (a group id
  is never the name of a property inherited from \<open>Object.prototype\<close>).
\<close>

record WechatGroupConfig =
  allow :: "bool option"
  enabled :: "bool option"
  requireMention :: "bool option"

type_synonym GroupTable = "(string \<times> WechatGroupConfig) list"

text \<open>
  The \<open>for (const candidate of candidates)\<close> loop of \<open>isGroupAllowed\<close>: the first candidate
  with an entry decides; \<open>None\<close> when the loop runs to its end.
\<close>

fun scanGroupCandidates :: "GroupTable \<Rightarrow> string list \<Rightarrow> bool option" where
  "scanGroupCandidates groups [] = None"
| "scanGroupCandidates groups (candidate # rest) =
     (case map_of groups candidate of
        None \<Rightarrow> scanGroupCandidates groups rest
      | Some entry \<Rightarrow>
          if allow entry = Some False \<or> enabled entry = Some False then Some False
          else Some True)"

definition isGroupAllowed :: "string \<Rightarrow> GroupTable \<Rightarrow> bool" where
  "isGroupAllowed groupId groups =
     (if length (map fst groups) = 0 then False
      else
        case scanGroupCandidates groups [groupId, ''group:'' @ groupId] of
          Some decided \<Rightarrow> decided
        | None \<Rightarrow>
            (case map_of groups ''*'' of
               Some wildcard \<Rightarrow> allow wildcard \<noteq> Some False \<and> enabled wildcard \<noteq> Some False
             | None \<Rightarrow> False))"

datatype DmPolicy = DmPairing | DmAllowlist | DmOpen | DmDisabled

datatype GroupPolicy = GroupOpen | GroupDisabled | GroupAllowlist

text \<open>
  \<open>WechatAccountConfig\<close> and \<open>ResolvedWechatAccount\<close>, with the fields the policy engine
  reads. The account-level \<open>requireMention\<close> is \<open>accountRequireMention\<close> here, the name being
  taken by the group entry's field.
\<close>

record WechatAccountConfig =
  dmPolicy :: "DmPolicy option"
  allowFrom :: "string list option"
  groupMembers :: "(string \<times> string list) list option"
  groupPolicy :: "GroupPolicy option"
  groups :: "GroupTable option"
  accountRequireMention :: "bool option"

record ResolvedWechatAccount =
  accountId :: string
  config :: WechatAccountConfig

definition resolveGroupRequireMention :: "ResolvedWechatAccount \<Rightarrow> string option \<Rightarrow> bool" where
  "resolveGroupRequireMention account groupId =
     (let table = (case groups (config account) of Some t \<Rightarrow> t | None \<Rightarrow> []);
          gid = map_option trim groupId;
          own =
            (case gid of
               None \<Rightarrow> None
             | Some g \<Rightarrow>
                 if g = [] then None
                 else
                   let direct = map_of table g;
                       alias = map_of table (''group:'' @ g);
                       resolved = (case direct of Some d \<Rightarrow> Some d | None \<Rightarrow> alias)
                   in (case resolved of
                         Some r \<Rightarrow> requireMention r
                       | None \<Rightarrow> None))
      in case own of
           Some b \<Rightarrow> b
         | None \<Rightarrow>
             (case (case map_of table ''*'' of
                      Some w \<Rightarrow> requireMention w
                    | None \<Rightarrow> None) of
                Some b \<Rightarrow> b
              | None \<Rightarrow>
                  (case accountRequireMention (config account) of
                     Some b \<Rightarrow> b
                   | None \<Rightarrow> True)))"

text \<open>The candidate loop of \<open>resolveGroupMemberAllowFrom\<close>.\<close>

fun scanMemberCandidates :: "(string \<times> string list) list \<Rightarrow> string list \<Rightarrow> string list" where
  "scanMemberCandidates members [] = []"
| "scanMemberCandidates members (candidate # rest) =
     (case map_of members candidate of
        Some entries \<Rightarrow> normalizeAllowFromEntries (Some entries)
      | None \<Rightarrow> scanMemberCandidates members rest)"

definition resolveGroupMemberAllowFrom :: "ResolvedWechatAccount \<Rightarrow> string option \<Rightarrow> string list" where
  "resolveGroupMemberAllowFrom account groupId =
     (let members = (case groupMembers (config account) of Some m \<Rightarrow> m | None \<Rightarrow> [])
      in case map_option trim groupId of
           None \<Rightarrow> []
         | Some g \<Rightarrow>
             if g = [] then []
             else scanMemberCandidates members [g, ''group:'' @ g])"

section \<open>Inbound messages and the admission decision\<close>

text \<open>
  \<open>WechatMessage\<close>. Numbers are integers (the backend sends integral ids, time stamps and
  0/1 flags). \<open>isMentioned?: boolean | number\<close> is absent (\<open>None\<close>), a boolean or a number;
  \<open>Boolean(flag)\<close> is \<open>flagTruthy\<close>. The field \<open>id\<close> is \<open>msgId\<close> here.
\<close>

datatype MentionFlag = MentionBool bool | MentionNumber int

fun flagTruthy :: "MentionFlag \<Rightarrow> bool" where
  "flagTruthy (MentionBool b) = b"
| "flagTruthy (MentionNumber n) = (n \<noteq> 0)"

record WechatMessage =
  msgId :: int
  newMsgId :: int
  msgType :: int
  content :: "string option"
  fromUserName :: string
  toUserName :: string
  isGroupMsg :: bool
  isMentioned :: "MentionFlag option"
  actualSender :: "string option"
  createTimeMsg :: int
  senderNickname :: "string option"

definition resolveWechatSenderId :: "WechatMessage \<Rightarrow> string" where
  "resolveWechatSenderId msg =
     (if isGroupMsg msg then
        (case actualSender msg of
           Some sender \<Rightarrow> if sender \<noteq> [] then sender else fromUserName msg
         | None \<Rightarrow> fromUserName msg)
      else fromUserName msg)"

text \<open>
  What \<open>processWechatInboundMessage\<close> reads of the host configuration:
  \<open>cfg.channels?.defaults?.groupPolicy\<close> and \<open>cfg.commands?.useAccessGroups\<close>.
\<close>

record OpenClawConfig =
  defaultGroupPolicy :: "GroupPolicy option"
  useAccessGroups :: "bool option"

text \<open>
  The host runtime (\<open>core.channel\<close>) is not part of this repository; the calls the
  admission path makes are parameters. \<open>readAllowFromStore\<close> is the allow list the pairing
  store holds when it is read, \<open>None\<close> when the read is rejected (the code then continues
  with the empty list). \<open>upsertPairingRequest\<close> returns the pairing code and whether the
  request was newly created.
\<close>

record PluginRuntime =
  shouldComputeCommandAuthorized :: "string \<Rightarrow> OpenClawConfig \<Rightarrow> bool"
  isControlCommandMessage :: "string \<Rightarrow> OpenClawConfig \<Rightarrow> bool"
  resolveCommandAuthorizedFromAuthorizers :: "bool \<Rightarrow> (bool \<times> bool) list \<Rightarrow> bool"
  readAllowFromStore :: "string list option"
  upsertPairingRequest :: "string \<Rightarrow> string \<times> bool"

text \<open>
  The inbound context handed to the reply pipeline, with the fields that depend on the
  admission path.
\<close>

record InboundContext =
  ctxRawBody :: string
  ctxSenderId :: string
  ctxChatId :: string
  ctxIsGroup :: bool
  ctxCommandAuthorized :: "bool option"
  ctxWasMentioned :: "bool option"

text \<open>
  Every way \<open>processWechatInboundMessage\<close> ends: one constructor for each early \<open>return\<close>,
  in the order of the source, and \<open>Dispatched\<close> when the message reaches the reply
  pipeline. \<open>PairingRequested code created\<close> is the pairing branch; the pairing reply it
  may send is a side channel and the message itself is dropped.
\<close>

datatype Verdict =
    IgnoredEmpty
  | IgnoredGroupDisabled
  | IgnoredGroupNotAllowed
  | IgnoredNotMentioned
  | IgnoredDmDisabled
  | PairingRequested string bool
  | IgnoredDmUnauthorized
  | IgnoredGroupCommandUnauthorized
  | Dispatched InboundContext

fun isDispatched :: "Verdict \<Rightarrow> bool" where
  "isDispatched (Dispatched ctx) = True"
| "isDispatched other = False"

text \<open>
  \<open>Array.from(new Set([...a, ...b]))\<close>: the elements in the order of their first
  occurrence.
\<close>

definition uniqueInOrder :: "'a list \<Rightarrow> 'a list" where
  "uniqueInOrder xs = rev (remdups (rev xs))"

text \<open>
  The group block of \<open>processWechatInboundMessage\<close> (\<open>if (isGroupMsg) { ... }\<close>): \<open>Some v\<close>
  is an early return with verdict \<open>v\<close>, \<open>None\<close> falls through.
\<close>

definition groupGate ::
  "OpenClawConfig \<Rightarrow> ResolvedWechatAccount \<Rightarrow> WechatMessage \<Rightarrow> Verdict option" where
  "groupGate cfg account msg =
     (let fromWxid = resolveWechatSenderId msg;
          chatId = fromUserName msg;
          policy =
            (case groupPolicy (config account) of
               Some p \<Rightarrow> p
             | None \<Rightarrow> (case defaultGroupPolicy cfg of Some p \<Rightarrow> p | None \<Rightarrow> GroupAllowlist));
          table = (case groups (config account) of Some t \<Rightarrow> t | None \<Rightarrow> [])
      in if policy = GroupDisabled then Some IgnoredGroupDisabled
         else if policy = GroupAllowlist
                 \<and> \<not> isGroupAllowed chatId table
                 \<and> \<not> isSenderAllowed fromWxid (resolveGroupMemberAllowFrom account (Some chatId))
         then Some IgnoredGroupNotAllowed
         else
           let requireMention = resolveGroupRequireMention account (Some chatId);
               isAtMe = (case isMentioned msg of Some flag \<Rightarrow> flagTruthy flag | None \<Rightarrow> False)
           in if requireMention \<and> \<not> isAtMe then Some IgnoredNotMentioned else None)"

text \<open>
  The rest of \<open>processWechatInboundMessage\<close> once the text is known to be non-empty and
  the group block has not returned: the allow lists, command authorisation, the
  direct-message block, the control-command check and the hand-over to the reply
  pipeline. \<open>body\<close> is the trimmed text.
\<close>

definition admitSender ::
  "PluginRuntime \<Rightarrow> OpenClawConfig \<Rightarrow> ResolvedWechatAccount \<Rightarrow> WechatMessage \<Rightarrow> string \<Rightarrow> Verdict" where
  "admitSender core cfg account msg body =
     (let isGroup = isGroupMsg msg;
          fromWxid = resolveWechatSenderId msg;
          chatId = fromUserName msg;
          policy = (case dmPolicy (config account) of Some p \<Rightarrow> p | None \<Rightarrow> DmAllowlist);
          allowFromConfig = normalizeAllowFromEntries (allowFrom (config account));
          shouldComputeAuth = shouldComputeCommandAuthorized core body cfg;
          storeAllowFrom =
            (if \<not> isGroup \<and> (policy \<noteq> DmOpen \<or> shouldComputeAuth)
             then normalizeAllowFromEntries
                    (Some (case readAllowFromStore core of Some l \<Rightarrow> l | None \<Rightarrow> []))
             else []);
          effectiveAllowFrom = uniqueInOrder (allowFromConfig @ storeAllowFrom);
          accessGroups = (useAccessGroups cfg \<noteq> Some False);
          senderAllowedForCommands = isSenderAllowed fromWxid effectiveAllowFrom;
          commandAuthorized =
            (if shouldComputeAuth
             then Some (resolveCommandAuthorizedFromAuthorizers core accessGroups
                          [(effectiveAllowFrom \<noteq> [], senderAllowedForCommands)])
             else None)
      in if \<not> isGroup \<and> policy = DmDisabled then IgnoredDmDisabled
         else if \<not> isGroup \<and> policy \<noteq> DmOpen \<and> \<not> senderAllowedForCommands then
           (if policy = DmPairing
            then (case upsertPairingRequest core fromWxid of
                    (code, created) \<Rightarrow> PairingRequested code created)
            else IgnoredDmUnauthorized)
         else if isGroup \<and> isControlCommandMessage core body cfg
                 \<and> commandAuthorized \<noteq> Some True
         then IgnoredGroupCommandUnauthorized
         else Dispatched
                \<lparr> ctxRawBody = body,
                  ctxSenderId = fromWxid,
                  ctxChatId = chatId,
                  ctxIsGroup = isGroup,
                  ctxCommandAuthorized = commandAuthorized,
                  ctxWasMentioned =
                    (if isGroup
                     then Some (case isMentioned msg of
                                  Some flag \<Rightarrow> flagTruthy flag
                                | None \<Rightarrow> False)
                     else None) \<rparr>)"

definition processWechatInboundMessage ::
  "PluginRuntime \<Rightarrow> OpenClawConfig \<Rightarrow> ResolvedWechatAccount \<Rightarrow> WechatMessage \<Rightarrow> Verdict" where
  "processWechatInboundMessage core cfg account msg =
     (let body = (case content msg of Some c \<Rightarrow> trim c | None \<Rightarrow> [])
      in if body = [] then IgnoredEmpty
         else
           case (if isGroupMsg msg then groupGate cfg account msg else None) of
             Some verdict \<Rightarrow> verdict
           | None \<Rightarrow> admitSender core cfg account msg body)"

section \<open>The RuoYi variant of the admission path\<close>

text \<open>
  \<open>runtime.ts\<close> also carries the RuoYi plugin variant, with its own copies of the helpers.
  Its channel prefixes are \<open>wechat-channel\<close>, \<open>ruoyi-wechat\<close> and \<open>ry\<close>; its
  \<open>resolveGroupRequireMention\<close> reads the direct key only; its \<open>isGroupAllowed\<close> is the same
  text as the one above, which stands for both. Message, account and host types have the
  same fields and are shared.
\<close>

definition stripRuoYiPrefix :: "string \<Rightarrow> string" where
  "stripRuoYiPrefix s =
     (if toLowerCase (take 15 s) = ''wechat-channel:'' then drop 15 s
      else if toLowerCase (take 13 s) = ''ruoyi-wechat:'' then drop 13 s
      else if toLowerCase (take 3 s) = ''ry:'' then drop 3 s
      else s)"

definition normalizeRuoYiTarget :: "string option \<Rightarrow> string option" where
  "normalizeRuoYiTarget raw =
     (case map_option trim raw of
        None \<Rightarrow> None
      | Some trimmed \<Rightarrow>
          if trimmed = [] then None else Some (stripRuoYiPrefix trimmed))"

definition normalizeAllowEntryRuoYi :: "string \<Rightarrow> string" where
  "normalizeAllowEntryRuoYi entry =
     (let raw = trim entry
      in if raw = [] then []
         else if raw = ''*'' then ''*''
         else (case normalizeRuoYiTarget (Some raw) of
                 Some target \<Rightarrow> target
               | None \<Rightarrow> raw))"

definition normalizeAllowFromEntriesRuoYi :: "string list option \<Rightarrow> string list" where
  "normalizeAllowFromEntriesRuoYi allowList =
     (case allowList of
        None \<Rightarrow> []
      | Some entries \<Rightarrow>
          filter (\<lambda>entry. entry \<noteq> []) (map trim (map normalizeAllowEntryRuoYi entries)))"

definition isSenderAllowedRuoYi :: "string \<Rightarrow> string list \<Rightarrow> bool" where
  "isSenderAllowedRuoYi senderId allowList =
     (if arrayIncludes allowList ''*'' then True
      else
        let normalizedSender = toLowerCase (normalizeAllowEntryRuoYi senderId)
        in list_ex (\<lambda>entry. toLowerCase (normalizeAllowEntryRuoYi entry) = normalizedSender)
             allowList)"

definition resolveGroupRequireMentionRuoYi ::
  "ResolvedWechatAccount \<Rightarrow> string option \<Rightarrow> bool" where
  "resolveGroupRequireMentionRuoYi account groupId =
     (let table = (case groups (config account) of Some t \<Rightarrow> t | None \<Rightarrow> []);
          own =
            (case map_option trim groupId of
               None \<Rightarrow> None
             | Some g \<Rightarrow>
                 if g = [] then None
                 else (case map_of table g of
                         Some d \<Rightarrow> requireMention d
                       | None \<Rightarrow> None))
      in case own of
           Some b \<Rightarrow> b
         | None \<Rightarrow>
             (case (case map_of table ''*'' of
                      Some w \<Rightarrow> requireMention w
                    | None \<Rightarrow> None) of
                Some b \<Rightarrow> b
              | None \<Rightarrow>
                  (case accountRequireMention (config account) of
                     Some b \<Rightarrow> b
                   | None \<Rightarrow> True)))"

fun scanMemberCandidatesRuoYi ::
  "(string \<times> string list) list \<Rightarrow> string list \<Rightarrow> string list" where
  "scanMemberCandidatesRuoYi members [] = []"
| "scanMemberCandidatesRuoYi members (candidate # rest) =
     (case map_of members candidate of
        Some entries \<Rightarrow> normalizeAllowFromEntriesRuoYi (Some entries)
      | None \<Rightarrow> scanMemberCandidatesRuoYi members rest)"

definition resolveGroupMemberAllowFromRuoYi ::
  "ResolvedWechatAccount \<Rightarrow> string option \<Rightarrow> string list" where
  "resolveGroupMemberAllowFromRuoYi account groupId =
     (let members = (case groupMembers (config account) of Some m \<Rightarrow> m | None \<Rightarrow> [])
      in case map_option trim groupId of
           None \<Rightarrow> []
         | Some g \<Rightarrow>
             if g = [] then []
             else scanMemberCandidatesRuoYi members [g, ''group:'' @ g])"

definition groupGateRuoYi ::
  "OpenClawConfig \<Rightarrow> ResolvedWechatAccount \<Rightarrow> WechatMessage \<Rightarrow> Verdict option" where
  "groupGateRuoYi cfg account msg =
     (let fromWxid = resolveWechatSenderId msg;
          chatId = fromUserName msg;
          policy =
            (case groupPolicy (config account) of
               Some p \<Rightarrow> p
             | None \<Rightarrow> (case defaultGroupPolicy cfg of Some p \<Rightarrow> p | None \<Rightarrow> GroupAllowlist));
          table = (case groups (config account) of Some t \<Rightarrow> t | None \<Rightarrow> [])
      in if policy = GroupDisabled then Some IgnoredGroupDisabled
         else if policy = GroupAllowlist
                 \<and> \<not> isGroupAllowed chatId table
                 \<and> \<not> isSenderAllowedRuoYi fromWxid
                       (resolveGroupMemberAllowFromRuoYi account (Some chatId))
         then Some IgnoredGroupNotAllowed
         else
           let requireMention = resolveGroupRequireMentionRuoYi account (Some chatId);
               isAtMe = (case isMentioned msg of Some flag \<Rightarrow> flagTruthy flag | None \<Rightarrow> False)
           in if requireMention \<and> \<not> isAtMe then Some IgnoredNotMentioned else None)"

text \<open>
  \<open>handleRuoYiInboundMessage\<close>: the allow list is the configured one alone (the source's
  comment: strict allow list, the pairing store is not read).
\<close>

definition admitSenderRuoYi ::
  "PluginRuntime \<Rightarrow> OpenClawConfig \<Rightarrow> ResolvedWechatAccount \<Rightarrow> WechatMessage \<Rightarrow> string \<Rightarrow> Verdict" where
  "admitSenderRuoYi core cfg account msg body =
     (let isGroup = isGroupMsg msg;
          fromWxid = resolveWechatSenderId msg;
          chatId = fromUserName msg;
          policy = (case dmPolicy (config account) of Some p \<Rightarrow> p | None \<Rightarrow> DmAllowlist);
          allowFromConfig = normalizeAllowFromEntriesRuoYi (allowFrom (config account));
          shouldComputeAuth = shouldComputeCommandAuthorized core body cfg;
          effectiveAllowFrom = allowFromConfig;
          accessGroups = (useAccessGroups cfg \<noteq> Some False);
          senderAllowedForCommands = isSenderAllowedRuoYi fromWxid effectiveAllowFrom;
          commandAuthorized =
            (if shouldComputeAuth
             then Some (resolveCommandAuthorizedFromAuthorizers core accessGroups
                          [(effectiveAllowFrom \<noteq> [], senderAllowedForCommands)])
             else None)
      in if \<not> isGroup \<and> policy = DmDisabled then IgnoredDmDisabled
         else if \<not> isGroup \<and> policy \<noteq> DmOpen \<and> \<not> senderAllowedForCommands then
           (if policy = DmPairing
            then (case upsertPairingRequest core fromWxid of
                    (code, created) \<Rightarrow> PairingRequested code created)
            else IgnoredDmUnauthorized)
         else if isGroup \<and> isControlCommandMessage core body cfg
                 \<and> commandAuthorized \<noteq> Some True
         then IgnoredGroupCommandUnauthorized
         else Dispatched
                \<lparr> ctxRawBody = body,
                  ctxSenderId = fromWxid,
                  ctxChatId = chatId,
                  ctxIsGroup = isGroup,
                  ctxCommandAuthorized = commandAuthorized,
                  ctxWasMentioned =
                    (if isGroup
                     then Some (case isMentioned msg of
                                  Some flag \<Rightarrow> flagTruthy flag
                                | None \<Rightarrow> False)
                     else None) \<rparr>)"

definition handleRuoYiInboundMessage ::
  "PluginRuntime \<Rightarrow> OpenClawConfig \<Rightarrow> ResolvedWechatAccount \<Rightarrow> WechatMessage \<Rightarrow> Verdict" where
  "handleRuoYiInboundMessage core cfg account msg =
     (let body = (case content msg of Some c \<Rightarrow> trim c | None \<Rightarrow> [])
      in if body = [] then IgnoredEmpty
         else
           case (if isGroupMsg msg then groupGateRuoYi cfg account msg else None) of
             Some verdict \<Rightarrow> verdict
           | None \<Rightarrow> admitSenderRuoYi core cfg account msg body)"

section \<open>The connection client\<close>

text \<open>
  \<open>WechatWebSocketClient\<close> (\<open>websocket.ts\<close>). The class keeps three mutable fields: \<open>ws\<close>,
  \<open>reconnectTimer\<close> and \<open>reconnectAttempts\<close>. Its handlers run when the platform fires a
  socket event or a timeout, so the state of the platform is part of the model: the
  sockets created so far with their \<open>readyState\<close>, the pending timeouts with their delay,
  the frames handed to \<open>WebSocket.send\<close>, the lines logged and the callbacks invoked.
  Sockets and timeouts are named by fresh handles; a timer handle is truthy. The URL
  built by \<open>connect\<close> is taken to be well formed.
\<close>

datatype ReadyState = CONNECTING | OPEN | CLOSING | CLOSED

datatype ContactType = Friend | Group

text \<open>The command frames \<open>send\<close> serialises, by their \<open>type\<close> tag.\<close>

datatype Frame =
    Auth string
  | SendText string string "string list"
  | SendImage string string
  | MarkProcessed "int list"
  | QueryContacts ContactType

datatype LogLine =
    InfoConnecting
  | InfoConnected
  | InfoClosed
  | ErrorSocket
  | ErrorMaxReconnectReached
  | InfoReconnectIn nat nat
  | WarnNotConnectedSendFailed

datatype Callback = OnConnect | OnDisconnect | OnError

record ClientWorld =
  ws :: "nat option"
  reconnectTimer :: "nat option"
  reconnectAttempts :: nat
  sockets :: "(nat \<times> ReadyState) list"
  timers :: "(nat \<times> nat) list"
  wire :: "(nat \<times> Frame) list"
  logged :: "LogLine list"
  notified :: "Callback list"
  nextHandle :: nat

definition maxReconnectAttempts :: nat where
  "maxReconnectAttempts = 10"

text \<open>A client fresh from its constructor, on a platform with no socket and no timeout.\<close>

definition newClient :: ClientWorld where
  "newClient =
     \<lparr> ws = None, reconnectTimer = None, reconnectAttempts = 0, sockets = [], timers = [],
       wire = [], logged = [], notified = [], nextHandle = 1 \<rparr>"

text \<open>
  The errors the modelled code can raise: the runtime's \<open>TypeError\<close>, and \<open>new Error\<close>
  with the messages "WebSocket not connected", "the WeChat target must not be empty" (both
  Chinese in the source), "fileName required for file send", "emojiMd5 and emojiSize are
  required for emoji send", "voiceDuration required for voice send" and "thumbUrl and
  videoDuration required for video send". A method call either returns or throws.
\<close>

datatype JsError =
    TypeError
  | NotConnected
  | EmptyTarget
  | FileNameRequired
  | EmojiFieldsRequired
  | VoiceDurationRequired
  | VideoMetadataRequired

datatype Completion = Returned | Threw JsError

text \<open>The socket \<open>s\<close> changes its \<open>readyState\<close> by \<open>f\<close>.\<close>

definition transition :: "nat \<Rightarrow> (ReadyState \<Rightarrow> ReadyState) \<Rightarrow> (nat \<times> ReadyState) list
    \<Rightarrow> (nat \<times> ReadyState) list" where
  "transition s f socks = map (\<lambda>(i, st). if i = s then (i, f st) else (i, st)) socks"

text \<open>\<open>this.ws !== null && this.ws.readyState === WebSocket.OPEN\<close>.\<close>

definition isConnected :: "ClientWorld \<Rightarrow> bool" where
  "isConnected w =
     (case ws w of
        None \<Rightarrow> False
      | Some s \<Rightarrow> map_of (sockets w) s = Some OPEN)"

text \<open>
  \<open>send(data)\<close>: the frame goes to the socket when it is open; otherwise a warning is
  logged. Neither branch throws, and the class has no queue to keep the frame in.
\<close>

definition send :: "Frame \<Rightarrow> ClientWorld \<Rightarrow> Completion \<times> ClientWorld" where
  "send frame w =
     (case ws w of
        None \<Rightarrow> (Returned, w\<lparr>logged := logged w @ [WarnNotConnectedSendFailed]\<rparr>)
      | Some s \<Rightarrow>
          if map_of (sockets w) s = Some OPEN
          then (Returned, w\<lparr>wire := wire w @ [(s, frame)]\<rparr>)
          else (Returned, w\<lparr>logged := logged w @ [WarnNotConnectedSendFailed]\<rparr>))"

definition sendText :: "string \<Rightarrow> string \<Rightarrow> string list \<Rightarrow> ClientWorld \<Rightarrow> Completion \<times> ClientWorld" where
  "sendText toWxid body at w = send (SendText toWxid body at) w"

definition sendImage :: "string \<Rightarrow> string \<Rightarrow> ClientWorld \<Rightarrow> Completion \<times> ClientWorld" where
  "sendImage toWxid imageUrl w = send (SendImage toWxid imageUrl) w"

definition markProcessed :: "int list \<Rightarrow> ClientWorld \<Rightarrow> Completion \<times> ClientWorld" where
  "markProcessed messageIds w = send (MarkProcessed messageIds) w"

definition queryContacts :: "ContactType \<Rightarrow> ClientWorld \<Rightarrow> Completion \<times> ClientWorld" where
  "queryContacts contactType w = send (QueryContacts contactType) w"

text \<open>
  \<open>connect()\<close>: a new socket in state \<open>CONNECTING\<close> replaces \<open>this.ws\<close>; the handlers it is
  given are the functions \<open>socketOpens\<close>, \<open>socketErrors\<close> and \<open>socketCloses\<close> below. Nothing
  else is touched: in particular neither \<open>reconnectTimer\<close> nor any pending timeout.
\<close>

definition connect :: "ClientWorld \<Rightarrow> ClientWorld" where
  "connect w =
     (let s = nextHandle w
      in w\<lparr> logged := logged w @ [InfoConnecting],
            ws := Some s,
            sockets := (s, CONNECTING) # sockets w,
            nextHandle := s + 1 \<rparr>)"

text \<open>\<open>Math.min(1000 * Math.pow(2, this.reconnectAttempts), 30000)\<close>.\<close>

definition reconnectDelay :: "nat \<Rightarrow> nat" where
  "reconnectDelay attempts = min (1000 * 2 ^ attempts) 30000"

text \<open>
  \<open>scheduleReconnect()\<close>: the counter is incremented before the delay is computed from
  it.
\<close>

definition scheduleReconnect :: "ClientWorld \<Rightarrow> ClientWorld" where
  "scheduleReconnect w =
     (if reconnectAttempts w \<ge> maxReconnectAttempts
      then w\<lparr>logged := logged w @ [ErrorMaxReconnectReached]\<rparr>
      else
        let attempts = reconnectAttempts w + 1;
            delay = reconnectDelay attempts;
            t = nextHandle w
        in w\<lparr> reconnectAttempts := attempts,
              logged := logged w @ [InfoReconnectIn delay attempts],
              timers := timers w @ [(t, delay)],
              reconnectTimer := Some t,
              nextHandle := t + 1 \<rparr>)"

text \<open>
  \<open>disconnect()\<close>: \<open>clearTimeout\<close> removes the timeout \<open>reconnectTimer\<close> names, if it is
  still pending; \<open>ws.close()\<close> moves a socket that is connecting or open to \<open>CLOSING\<close>,
  and its \<open>close\<close> event follows later.
\<close>

definition closeCalled :: "ReadyState \<Rightarrow> ReadyState" where
  "closeCalled st = (if st = CONNECTING \<or> st = OPEN then CLOSING else st)"

definition disconnect :: "ClientWorld \<Rightarrow> ClientWorld" where
  "disconnect w =
     (let w1 =
            (case reconnectTimer w of
               Some t \<Rightarrow> w\<lparr> timers := filter (\<lambda>(h, d). h \<noteq> t) (timers w),
                              reconnectTimer := None \<rparr>
             | None \<Rightarrow> w)
      in case ws w1 of
           Some s \<Rightarrow> w1\<lparr> sockets := transition s closeCalled (sockets w1), ws := None \<rparr>
         | None \<Rightarrow> w1)"

text \<open>
  The platform's events. \<open>onopen\<close> of socket \<open>s\<close>: the socket is open, the counter is
  reset, \<open>onConnect\<close> is invoked and the authentication frame is sent through \<open>send\<close>
  (that is, through whatever \<open>this.ws\<close> is by then).
\<close>

definition opened :: "ReadyState \<Rightarrow> ReadyState" where
  "opened st = (if st = CONNECTING then OPEN else st)"

definition socketOpens :: "string \<Rightarrow> nat \<Rightarrow> ClientWorld \<Rightarrow> ClientWorld" where
  "socketOpens robotWxid s w =
     (let w1 = w\<lparr> sockets := transition s opened (sockets w),
                  logged := logged w @ [InfoConnected],
                  reconnectAttempts := 0,
                  notified := notified w @ [OnConnect] \<rparr>
      in snd (send (Auth robotWxid) w1))"

definition socketErrors :: "nat \<Rightarrow> ClientWorld \<Rightarrow> ClientWorld" where
  "socketErrors s w =
     w\<lparr> logged := logged w @ [ErrorSocket], notified := notified w @ [OnError] \<rparr>"

text \<open>\<open>onclose\<close> of socket \<open>s\<close>: \<open>onDisconnect\<close>, then \<open>scheduleReconnect\<close>.\<close>

definition socketCloses :: "nat \<Rightarrow> ClientWorld \<Rightarrow> ClientWorld" where
  "socketCloses s w =
     scheduleReconnect
       (w\<lparr> sockets := transition s (\<lambda>st. CLOSED) (sockets w),
            logged := logged w @ [InfoClosed],
            notified := notified w @ [OnDisconnect] \<rparr>)"

text \<open>The timeout \<open>t\<close> elapses: it is no longer pending and its callback calls \<open>connect\<close>.\<close>

definition timerFires :: "nat \<Rightarrow> ClientWorld \<Rightarrow> ClientWorld" where
  "timerFires t w = connect (w\<lparr>timers := filter (\<lambda>(h, d). h \<noteq> t) (timers w)\<rparr>)"

text \<open>
  What can happen to a client: a call of its public methods or an event of the
  platform. \<open>step\<close> is \<open>None\<close> for an event the platform cannot fire in that state: a
  socket opens only while connecting, closes only once and only if it exists, and only a
  pending timeout elapses.
\<close>

datatype ClientEvent =
    CallConnect
  | CallDisconnect
  | CallSend Frame
  | SocketOpens nat
  | SocketErrors nat
  | SocketCloses nat
  | TimerFires nat

fun step :: "string \<Rightarrow> ClientEvent \<Rightarrow> ClientWorld \<Rightarrow> ClientWorld option" where
  "step robotWxid CallConnect w = Some (connect w)"
| "step robotWxid CallDisconnect w = Some (disconnect w)"
| "step robotWxid (CallSend frame) w = Some (snd (send frame w))"
| "step robotWxid (SocketOpens s) w =
     (if map_of (sockets w) s = Some CONNECTING then Some (socketOpens robotWxid s w) else None)"
| "step robotWxid (SocketErrors s) w =
     (case map_of (sockets w) s of
        None \<Rightarrow> None
      | Some st \<Rightarrow> if st = CLOSED then None else Some (socketErrors s w))"
| "step robotWxid (SocketCloses s) w =
     (case map_of (sockets w) s of
        None \<Rightarrow> None
      | Some st \<Rightarrow> if st = CLOSED then None else Some (socketCloses s w))"
| "step robotWxid (TimerFires t) w =
     (if t \<in> fst ` set (timers w) then Some (timerFires t w) else None)"

fun run :: "string \<Rightarrow> ClientEvent list \<Rightarrow> ClientWorld \<Rightarrow> ClientWorld option" where
  "run robotWxid [] w = Some w"
| "run robotWxid (e # es) w =
     (case step robotWxid e w of
        None \<Rightarrow> None
      | Some w' \<Rightarrow> run robotWxid es w')"

text \<open>
  A client is at rest when no timeout is pending and every socket it ever created has
  closed. \<open>runFromRest\<close> is \<open>run\<close> for a history in which \<open>connect()\<close> is only called on
  a client at rest, as the gateway does (one \<open>connect()\<close> on a new client).
\<close>

definition live :: "nat \<times> ReadyState \<Rightarrow> bool" where
  "live p = (snd p \<noteq> CLOSED)"

definition atRest :: "ClientWorld \<Rightarrow> bool" where
  "atRest w = (timers w = [] \<and> filter live (sockets w) = [])"

fun runFromRest :: "string \<Rightarrow> ClientEvent list \<Rightarrow> ClientWorld \<Rightarrow> ClientWorld option" where
  "runFromRest robotWxid [] w = Some w"
| "runFromRest robotWxid (e # es) w =
     (if e = CallConnect \<and> \<not> atRest w then None
      else case step robotWxid e w of
             None \<Rightarrow> None
           | Some w' \<Rightarrow> runFromRest robotWxid es w')"

section \<open>Merging a debounce bucket\<close>

text \<open>
  \<open>WechatInboundParams\<close>: what the debouncer buffers. The fields \<open>msg\<close>, \<open>cfg\<close> and
  \<open>account\<close> are \<open>entryMsg\<close>, \<open>entryCfg\<close> and \<open>entryAccount\<close> here; the optional callback
  \<open>statusSink\<close> is not data and is left out.
\<close>

record WechatInboundParams =
  entryMsg :: WechatMessage
  entryCfg :: OpenClawConfig
  entryAccount :: ResolvedWechatAccount

text \<open>
  \<open>shouldDebounce\<close> of the gateway's debouncer: an entry is buffered when its trimmed text
  is non-empty and is not a control command.
\<close>

definition shouldDebounce :: "PluginRuntime \<Rightarrow> WechatInboundParams \<Rightarrow> bool" where
  "shouldDebounce core entry =
     (let body = (case content (entryMsg entry) of Some c \<Rightarrow> trim c | None \<Rightarrow> [])
      in if body = [] then False
         else \<not> isControlCommandMessage core body (entryCfg entry))"

text \<open>
  \<open>mergeWechatInboundMessages\<close>. On the empty array \<open>last\<close> is \<open>undefined\<close> and reading
  \<open>last.msg\<close> throws a \<open>TypeError\<close>. \<open>mergedContent || last.msg.content || ""\<close> takes the
  first operand that is neither \<open>null\<close> nor empty.
\<close>

definition mergeWechatInboundMessages :: "WechatInboundParams list \<Rightarrow> JsError + WechatMessage" where
  "mergeWechatInboundMessages entries =
     (if entries = [] then Inl TypeError
      else
        let lastEntry = last entries;
            mergedContent =
              join [CHR 0x0A]
                (filter (\<lambda>part. part \<noteq> [])
                   (map (\<lambda>entry. case content (entryMsg entry) of
                                    Some c \<Rightarrow> trim c
                                  | None \<Rightarrow> [])
                      entries));
            wasMentioned =
              list_ex (\<lambda>entry. case isMentioned (entryMsg entry) of
                                  Some flag \<Rightarrow> flagTruthy flag
                                | None \<Rightarrow> False)
                entries;
            mergedText =
              (if mergedContent \<noteq> [] then mergedContent
               else (case content (entryMsg lastEntry) of
                       Some c \<Rightarrow> if c \<noteq> [] then c else []
                     | None \<Rightarrow> []))
        in Inr ((entryMsg lastEntry)
                  \<lparr> content := Some mergedText,
                    isMentioned :=
                      (if wasMentioned then Some (MentionBool True)
                       else isMentioned (entryMsg lastEntry)) \<rparr>))"

text \<open>
  \<open>onFlush\<close>: what is handed to \<open>processWechatInboundMessage\<close>; \<open>None\<close> when the bucket
  is empty and nothing is processed.
\<close>

definition onFlush :: "WechatInboundParams list \<Rightarrow> JsError + WechatInboundParams option" where
  "onFlush entries =
     (if entries = [] then Inr None
      else if length entries = 1 then Inr (Some (last entries))
      else
        (case mergeWechatInboundMessages entries of
           Inl err \<Rightarrow> Inl err
         | Inr mergedMsg \<Rightarrow> Inr (Some ((last entries)\<lparr>entryMsg := mergedMsg\<rparr>))))"

section \<open>Outbound media\<close>

text \<open>
  The functions of the platform and of the host SDK that the media path calls are
  parameters: \<open>new URL(s)\<close> (\<open>None\<close> when it throws) with the \<open>pathname\<close> and the
  \<open>searchParams\<close> of the result, \<open>new URLSearchParams(s)\<close>, \<open>Number.parseFloat\<close>,
  \<open>Number.isFinite\<close>, \<open>Math.trunc\<close>, \<open>decodeURIComponent\<close> (\<open>None\<close> when it throws) and
  the SDK's \<open>getFileExtension\<close>. JavaScript numbers are a type parameter \<open>'n\<close>. Search
  parameters are an association list in the order of the query; \<open>params.get(key)\<close> is
  the first value under the key.
\<close>

record ParsedURL =
  pathname :: string
  searchParams :: "(string \<times> string) list"

record 'n MediaPlatform =
  newURL :: "string \<Rightarrow> ParsedURL option"
  newURLSearchParams :: "string \<Rightarrow> (string \<times> string) list"
  numberParseFloat :: "string \<Rightarrow> 'n"
  numberIsFinite :: "'n \<Rightarrow> bool"
  mathTrunc :: "'n \<Rightarrow> 'n"
  decodeURIComponent :: "string \<Rightarrow> string option"
  getFileExtension :: "string \<Rightarrow> string option"

definition AUDIO_EXTS :: "string list" where
  "AUDIO_EXTS =
     [''.silk'', ''.amr'', ''.mp3'', ''.wav'', ''.m4a'', ''.aac'', ''.ogg'', ''.opus'', ''.flac'']"

definition VIDEO_EXTS :: "string list" where
  "VIDEO_EXTS = [''.mp4'', ''.mov'', ''.mkv'', ''.webm'', ''.avi'', ''.mpeg'', ''.mpg'']"

definition IMAGE_EXTS :: "string list" where
  "IMAGE_EXTS =
     [''.jpg'', ''.jpeg'', ''.png'', ''.gif'', ''.webp'', ''.bmp'', ''.heic'', ''.heif'']"

datatype MediaKind = MediaImage | MediaVoice | MediaVideo | MediaFile | MediaEmoji

text \<open>
  \<open>MediaUrlMeta\<close>, \<open>MediaHints\<close> and \<open>ResolvedMediaSpec\<close> share field names in the source;
  here each field carries the name of its record in front.
\<close>

record 'n MediaUrlMeta =
  metaIsEmojiScheme :: bool
  metaEmojiMd5 :: "string option"
  metaEmojiSize :: "string option"
  metaVoiceDuration :: "'n option"
  metaVideoDuration :: "'n option"
  metaThumbUrl :: "string option"
  metaFileName :: "string option"

record 'n MediaHints =
  hintContentType :: "string option"
  hintAsVoice :: "bool option"
  hintFileName :: "string option"
  hintVoiceDuration :: "'n option"
  hintVideoDuration :: "'n option"
  hintThumbUrl :: "string option"
  hintEmojiMd5 :: "string option"
  hintEmojiSize :: "string option"

record 'n ResolvedMediaSpec =
  specKind :: MediaKind
  specMediaUrl :: "string option"
  specFileName :: "string option"
  specVoiceDuration :: "'n option"
  specVideoDuration :: "'n option"
  specThumbUrl :: "string option"
  specEmojiMd5 :: "string option"
  specEmojiSize :: "string option"
  specIsEmojiScheme :: "bool option"

text \<open>\<open>s.split(sep)\<close> for a separator that is one character of a class.\<close>

fun splitWhere :: "(char \<Rightarrow> bool) \<Rightarrow> string \<Rightarrow> string list" where
  "splitWhere sep [] = [[]]"
| "splitWhere sep (c # cs) =
     (if sep c then [] # splitWhere sep cs
      else (case splitWhere sep cs of
              [] \<Rightarrow> [[c]]
            | piece # pieces \<Rightarrow> (c # piece) # pieces))"

definition parseDuration :: "'n MediaPlatform \<Rightarrow> string option \<Rightarrow> 'n option" where
  "parseDuration pf raw =
     (case raw of
        None \<Rightarrow> None
      | Some r \<Rightarrow>
          if r = [] then None
          else
            let parsed = numberParseFloat pf r
            in if \<not> numberIsFinite pf parsed then None else Some (mathTrunc pf parsed))"

fun readQueryValue :: "(string \<times> string) list \<Rightarrow> string list \<Rightarrow> string option" where
  "readQueryValue params [] = None"
| "readQueryValue params (key # keys) =
     (case map_of params key of
        None \<Rightarrow> readQueryValue params keys
      | Some v \<Rightarrow> if v \<noteq> [] \<and> trim v \<noteq> [] then Some v else readQueryValue params keys)"

text \<open>\<open>x?.trim() || undefined\<close>.\<close>

definition trimmedOrUndefined :: "string option \<Rightarrow> string option" where
  "trimmedOrUndefined x =
     (case x of
        None \<Rightarrow> None
      | Some v \<Rightarrow> if trim v = [] then None else Some (trim v))"

text \<open>\<open>{ isEmojiScheme: false }\<close>.\<close>

definition plainMeta :: "'n MediaUrlMeta" where
  "plainMeta =
     \<lparr> metaIsEmojiScheme = False, metaEmojiMd5 = None, metaEmojiSize = None,
       metaVoiceDuration = None, metaVideoDuration = None, metaThumbUrl = None,
       metaFileName = None \<rparr>"

text \<open>The \<open>emoji:\<close> branch of \<open>parseMediaUrlMeta\<close>; \<open>trimmed\<close> starts with the scheme.\<close>

definition parseEmojiUrl :: "'n MediaPlatform \<Rightarrow> string \<Rightarrow> 'n MediaUrlMeta" where
  "parseEmojiUrl pf trimmed =
     (let afterScheme = drop 6 trimmed;
          withoutScheme =
            (if startsWith afterScheme ''//'' then drop 2 afterScheme else afterScheme);
          pieces = take 2 (splitWhere (\<lambda>c. c = CHR ''?'') withoutScheme);
          pathPart = (case pieces of [] \<Rightarrow> [] | p # rest \<Rightarrow> p);
          queryPart = (case pieces of [p, q] \<Rightarrow> q | other \<Rightarrow> []);
          params = newURLSearchParams pf queryPart;
          pathToken =
            (case filter (\<lambda>seg. seg \<noteq> []) (splitWhere (\<lambda>c. c = CHR ''/'') pathPart) of
               [] \<Rightarrow> []
             | seg # rest \<Rightarrow> seg);
          tokens =
            (if CHR '':'' \<in> set pathToken
             then take 2 (splitWhere (\<lambda>c. c = CHR '':'') pathToken)
             else [pathToken, []]);
          md5Token = (case tokens of [] \<Rightarrow> [] | a # rest \<Rightarrow> a);
          sizeToken = (case tokens of [a, b] \<Rightarrow> b | other \<Rightarrow> []);
          emojiMd5 =
            (if trim md5Token \<noteq> [] then Some (trim md5Token)
             else readQueryValue params [''emojiMd5'', ''md5'']);
          emojiSize =
            (if trim sizeToken \<noteq> [] then Some (trim sizeToken)
             else readQueryValue params [''emojiSize'', ''size''])
      in \<lparr> metaIsEmojiScheme = True,
           metaEmojiMd5 = trimmedOrUndefined emojiMd5,
           metaEmojiSize = trimmedOrUndefined emojiSize,
           metaVoiceDuration = None, metaVideoDuration = None, metaThumbUrl = None,
           metaFileName = None \<rparr>)"

definition parseMediaUrlMeta :: "'n MediaPlatform \<Rightarrow> string \<Rightarrow> 'n MediaUrlMeta" where
  "parseMediaUrlMeta pf mediaUrl =
     (let trimmed = trim mediaUrl
      in if trimmed = [] then plainMeta
         else if startsWith (toLowerCase trimmed) ''emoji:'' then parseEmojiUrl pf trimmed
         else
           (case newURL pf trimmed of
              None \<Rightarrow> plainMeta
            | Some url \<Rightarrow>
                let params = searchParams url;
                    emojiMd5 = readQueryValue params [''emojiMd5'', ''md5''];
                    emojiSize = readQueryValue params [''emojiSize'', ''size''];
                    thumbUrl = readQueryValue params [''thumbUrl'', ''thumb''];
                    duration = parseDuration pf (readQueryValue params [''duration'']);
                    voiceDuration = parseDuration pf (readQueryValue params [''voiceDuration'']);
                    videoDuration = parseDuration pf (readQueryValue params [''videoDuration'']);
                    fileName = readQueryValue params [''fileName'', ''filename'', ''name'']
                in \<lparr> metaIsEmojiScheme = False,
                     metaEmojiMd5 = trimmedOrUndefined emojiMd5,
                     metaEmojiSize = trimmedOrUndefined emojiSize,
                     metaVoiceDuration =
                       (case voiceDuration of Some d \<Rightarrow> Some d | None \<Rightarrow> duration),
                     metaVideoDuration =
                       (case videoDuration of Some d \<Rightarrow> Some d | None \<Rightarrow> duration),
                     metaThumbUrl = trimmedOrUndefined thumbUrl,
                     metaFileName = trimmedOrUndefined fileName \<rparr>))"

text \<open>
  \<open>inferFileNameFromMediaUrl\<close>: the last non-empty segment of the URL's path, decoded
  when that succeeds; for a string that is no URL, what follows the last slash or
  backslash of the part before the first \<open>?\<close> or \<open>#\<close>.
\<close>

definition inferFileNameFromMediaUrl :: "'n MediaPlatform \<Rightarrow> string \<Rightarrow> string option" where
  "inferFileNameFromMediaUrl pf mediaUrl =
     (let trimmed = trim mediaUrl
      in if trimmed = [] then None
         else
           (case newURL pf trimmed of
              Some url \<Rightarrow>
                let parts = filter (\<lambda>seg. seg \<noteq> [])
                              (splitWhere (\<lambda>c. c = CHR ''/'') (pathname url))
                in if parts = [] then None
                   else (case decodeURIComponent pf (last parts) of
                           Some decoded \<Rightarrow> Some decoded
                         | None \<Rightarrow> Some (last parts))
            | None \<Rightarrow>
                let cleaned =
                      (case splitWhere (\<lambda>c. c = CHR ''?'' \<or> c = CHR ''#'') trimmed of
                         [] \<Rightarrow> []
                       | piece # rest \<Rightarrow> piece);
                    parts = splitWhere (\<lambda>c. c = CHR 0x5C \<or> c = CHR ''/'') cleaned
                in if last parts = [] then None else Some (last parts)))"

text \<open>\<open>a && b\<close> on two optional strings: both present and non-empty.\<close>

definition bothGiven :: "string option \<Rightarrow> string option \<Rightarrow> bool" where
  "bothGiven a b =
     ((case a of Some x \<Rightarrow> x \<noteq> [] | None \<Rightarrow> False)
      \<and> (case b of Some y \<Rightarrow> y \<noteq> [] | None \<Rightarrow> False))"

text \<open>\<open>a ?? b\<close>.\<close>

definition orElse :: "'a option \<Rightarrow> 'a option \<Rightarrow> 'a option" where
  "orElse a b = (case a of Some x \<Rightarrow> Some x | None \<Rightarrow> b)"

text \<open>\<open>ext && EXTS.has(ext)\<close>.\<close>

definition extensionIn :: "string option \<Rightarrow> string list \<Rightarrow> bool" where
  "extensionIn ext exts = (case ext of Some e \<Rightarrow> e \<noteq> [] \<and> e \<in> set exts | None \<Rightarrow> False)"

text \<open>\<open>params.hints ?? {}\<close>.\<close>

definition noHints :: "'n MediaHints" where
  "noHints =
     \<lparr> hintContentType = None, hintAsVoice = None, hintFileName = None,
       hintVoiceDuration = None, hintVideoDuration = None, hintThumbUrl = None,
       hintEmojiMd5 = None, hintEmojiSize = None \<rparr>"

definition resolveMediaSpec ::
  "'n MediaPlatform \<Rightarrow> string \<Rightarrow> 'n MediaHints option \<Rightarrow> 'n ResolvedMediaSpec" where
  "resolveMediaSpec pf mediaUrl hintsArg =
     (let meta = parseMediaUrlMeta pf mediaUrl;
          hints = (case hintsArg of Some h \<Rightarrow> h | None \<Rightarrow> noHints);
          emojiMd5 = orElse (hintEmojiMd5 hints) (metaEmojiMd5 meta);
          emojiSize = orElse (hintEmojiSize hints) (metaEmojiSize meta)
      in if metaIsEmojiScheme meta \<or> bothGiven emojiMd5 emojiSize
         then \<lparr> specKind = MediaEmoji, specMediaUrl = Some mediaUrl, specFileName = None,
                specVoiceDuration = None, specVideoDuration = None, specThumbUrl = None,
                specEmojiMd5 = emojiMd5, specEmojiSize = emojiSize,
                specIsEmojiScheme = Some (metaIsEmojiScheme meta) \<rparr>
         else
           let contentType = map_option toLowerCase (hintContentType hints);
               typeStarts = (\<lambda>p. case contentType of Some t \<Rightarrow> startsWith t p | None \<Rightarrow> False);
               kind =
                 (if hintAsVoice hints = Some True then MediaVoice
                  else if typeStarts ''audio/'' then MediaVoice
                  else if typeStarts ''video/'' then MediaVideo
                  else if typeStarts ''image/'' then MediaImage
                  else
                    let ext = getFileExtension pf
                                (case hintFileName hints of Some n \<Rightarrow> n | None \<Rightarrow> mediaUrl)
                    in if extensionIn ext AUDIO_EXTS then MediaVoice
                       else if extensionIn ext VIDEO_EXTS then MediaVideo
                       else if extensionIn ext IMAGE_EXTS then MediaImage
                       else MediaFile)
           in \<lparr> specKind = kind, specMediaUrl = Some mediaUrl,
                specFileName =
                  orElse (hintFileName hints)
                    (orElse (metaFileName meta) (inferFileNameFromMediaUrl pf mediaUrl)),
                specVoiceDuration = orElse (hintVoiceDuration hints) (metaVoiceDuration meta),
                specVideoDuration = orElse (hintVideoDuration hints) (metaVideoDuration meta),
                specThumbUrl = orElse (hintThumbUrl hints) (metaThumbUrl meta),
                specEmojiMd5 = emojiMd5, specEmojiSize = emojiSize,
                specIsEmojiScheme = Some (metaIsEmojiScheme meta) \<rparr>)"

text \<open>
  \<open>resolveWechatOutboundTarget\<close> and \<open>requireWechatOutboundTarget\<close>: the destination is
  trimmed and stripped of its channel prefix; an empty result throws.
\<close>

definition resolveWechatOutboundTarget :: "string option \<Rightarrow> string option" where
  "resolveWechatOutboundTarget raw =
     (case map_option trim raw of
        None \<Rightarrow> None
      | Some trimmed \<Rightarrow>
          if trimmed = [] then None
          else (case normalizeWechatTarget (Some trimmed) of
                  Some target \<Rightarrow> Some target
                | None \<Rightarrow> Some trimmed))"

definition requireWechatOutboundTarget :: "string option \<Rightarrow> JsError + string" where
  "requireWechatOutboundTarget raw =
     (case resolveWechatOutboundTarget raw of
        None \<Rightarrow> Inl EmptyTarget
      | Some resolved \<Rightarrow> if resolved = [] then Inl EmptyTarget else Inr resolved)"

text \<open>
  What \<open>sendWechatMedia\<close> does, in order: the calls on the connection client, the
  warnings logged and the calls of \<open>statusSink\<close>. The logger and the status sink are
  optional in the source; the effects are those of a call that is given both.
\<close>

datatype MediaWarning =
    MissingFileNameSkipped
  | EmojiFieldsMissing
  | VoiceDurationMissingFallback
  | VideoMetadataMissingFallback

datatype 'n MediaEffect =
    CallSendFile string string string
  | CallSendEmoji string string string
  | CallSendVoice string string 'n
  | CallSendVideo string string string 'n
  | CallSendImage string string
  | Warned MediaWarning
  | StatusLastOutbound

text \<open>
  The file name \<open>fallbackToFile\<close> settles on:
  \<open>spec.fileName ?? inferFileNameFromMediaUrl(trimmed) ?? (ext ? `file${ext}` : "file")\<close>.
\<close>

definition fallbackFileName :: "'n MediaPlatform \<Rightarrow> 'n ResolvedMediaSpec \<Rightarrow> string \<Rightarrow> string" where
  "fallbackFileName pf spec trimmed =
     (case orElse (specFileName spec) (inferFileNameFromMediaUrl pf trimmed) of
        Some inferredName \<Rightarrow> inferredName
      | None \<Rightarrow>
          (case getFileExtension pf trimmed of
             Some ext \<Rightarrow> if ext \<noteq> [] then ''file'' @ ext else ''file''
           | None \<Rightarrow> ''file''))"

definition fallbackToFile ::
  "'n MediaPlatform \<Rightarrow> string \<Rightarrow> string \<Rightarrow> 'n ResolvedMediaSpec \<Rightarrow> bool
     \<Rightarrow> JsError + 'n MediaEffect list" where
  "fallbackToFile pf chatId trimmed spec strict =
     (let fileName = fallbackFileName pf spec trimmed
      in if fileName = [] then
           (if strict then Inl FileNameRequired else Inr [Warned MissingFileNameSkipped])
         else Inr [CallSendFile chatId trimmed fileName, StatusLastOutbound])"

text \<open>Effects that come before a step which may still throw.\<close>

definition afterEffects ::
  "'n MediaEffect list \<Rightarrow> JsError + 'n MediaEffect list \<Rightarrow> JsError + 'n MediaEffect list" where
  "afterEffects earlier later =
     (case later of Inl err \<Rightarrow> Inl err | Inr effects \<Rightarrow> Inr (earlier @ effects))"

definition sendWechatMedia ::
  "'n MediaPlatform \<Rightarrow> string \<Rightarrow> string \<Rightarrow> 'n MediaHints option \<Rightarrow> bool option
     \<Rightarrow> JsError + 'n MediaEffect list" where
  "sendWechatMedia pf chatIdArg mediaUrl hints strictArg =
     (case requireWechatOutboundTarget (Some chatIdArg) of
        Inl err \<Rightarrow> Inl err
      | Inr chatId \<Rightarrow>
          let trimmed = trim mediaUrl
          in if trimmed = [] then Inr []
             else
               let spec = resolveMediaSpec pf trimmed hints;
                   strict = (case strictArg of Some b \<Rightarrow> b | None \<Rightarrow> False)
               in if specKind spec = MediaEmoji then
                    (case (specEmojiMd5 spec, specEmojiSize spec) of
                       (Some emojiMd5, Some emojiSize) \<Rightarrow>
                         if emojiMd5 = [] \<or> emojiSize = [] then
                           (if strict then Inl EmojiFieldsRequired
                            else Inr [Warned EmojiFieldsMissing])
                         else Inr [CallSendEmoji chatId emojiMd5 emojiSize, StatusLastOutbound]
                     | other \<Rightarrow>
                         if strict then Inl EmojiFieldsRequired
                         else Inr [Warned EmojiFieldsMissing])
                  else if specKind spec = MediaVoice then
                    (case specVoiceDuration spec of
                       None \<Rightarrow>
                         if strict then Inl VoiceDurationRequired
                         else afterEffects [Warned VoiceDurationMissingFallback]
                                (fallbackToFile pf chatId trimmed spec strict)
                     | Some duration \<Rightarrow>
                         Inr [CallSendVoice chatId trimmed duration, StatusLastOutbound])
                  else if specKind spec = MediaVideo then
                    (case (specThumbUrl spec, specVideoDuration spec) of
                       (Some thumbUrl, Some duration) \<Rightarrow>
                         if thumbUrl = [] then
                           (if strict then Inl VideoMetadataRequired
                            else afterEffects [Warned VideoMetadataMissingFallback]
                                   (fallbackToFile pf chatId trimmed spec strict))
                         else Inr [CallSendVideo chatId trimmed thumbUrl duration,
                                   StatusLastOutbound]
                     | other \<Rightarrow>
                         if strict then Inl VideoMetadataRequired
                         else afterEffects [Warned VideoMetadataMissingFallback]
                                (fallbackToFile pf chatId trimmed spec strict))
                  else if specKind spec = MediaImage then
                    Inr [CallSendImage chatId trimmed, StatusLastOutbound]
                  else fallbackToFile pf chatId trimmed spec strict)"

section \<open>Vocabulary of the statements\<close>

text \<open>
  Names for expressions of the source that the statements below talk about: the effective
  policies (with the source's defaults), the trimmed text of a message, the group table
  of an account, the entry a group id owns (the direct key first, then the \<open>group:\<close>
  alias), the mention test, and "the first defined boolean of a list, else a default".
\<close>

definition effectiveDmPolicy :: "ResolvedWechatAccount \<Rightarrow> DmPolicy" where
  "effectiveDmPolicy account =
     (case dmPolicy (config account) of Some p \<Rightarrow> p | None \<Rightarrow> DmAllowlist)"

definition effectiveGroupPolicy :: "OpenClawConfig \<Rightarrow> ResolvedWechatAccount \<Rightarrow> GroupPolicy" where
  "effectiveGroupPolicy cfg account =
     (case groupPolicy (config account) of
        Some p \<Rightarrow> p
      | None \<Rightarrow> (case defaultGroupPolicy cfg of Some p \<Rightarrow> p | None \<Rightarrow> GroupAllowlist))"

definition trimmedContent :: "WechatMessage \<Rightarrow> string" where
  "trimmedContent msg = (case content msg of Some c \<Rightarrow> trim c | None \<Rightarrow> [])"

definition groupTableOf :: "ResolvedWechatAccount \<Rightarrow> GroupTable" where
  "groupTableOf account = (case groups (config account) of Some t \<Rightarrow> t | None \<Rightarrow> [])"

definition ownGroupEntry :: "GroupTable \<Rightarrow> string \<Rightarrow> WechatGroupConfig option" where
  "ownGroupEntry table g =
     (case map_of table g of
        Some direct \<Rightarrow> Some direct
      | None \<Rightarrow> map_of table (''group:'' @ g))"

definition wasMentioned :: "WechatMessage \<Rightarrow> bool" where
  "wasMentioned msg = (case isMentioned msg of Some flag \<Rightarrow> flagTruthy flag | None \<Rightarrow> False)"



text \<open>
  The invariant of the connection client: sockets that have not closed and pending
  timeouts are at most one together, and a pending timeout is the one \<open>reconnectTimer\<close>
  names.
\<close>

definition clientInv :: "ClientWorld \<Rightarrow> bool" where
  "clientInv w =
     (length (filter live (sockets w)) + length (timers w) \<le> 1
      \<and> list_all (\<lambda>p. reconnectTimer w = Some (fst p)) (timers w))"

text \<open>The delays announced in a log, in order.\<close>

fun scheduledDelays :: "LogLine list \<Rightarrow> nat list" where
  "scheduledDelays [] = []"
| "scheduledDelays (InfoReconnectIn delay attempts # rest) = delay # scheduledDelays rest"
| "scheduledDelays (other # rest) = scheduledDelays rest"

text \<open>
  For the media path: the hints a call works with, whether the lower-cased content type
  hint starts with a prefix, and whether \<open>resolveMediaSpec\<close> takes the emoji branch.
\<close>

definition hintsOf :: "'n MediaHints option \<Rightarrow> 'n MediaHints" where
  "hintsOf hintsArg = (case hintsArg of Some h \<Rightarrow> h | None \<Rightarrow> noHints)"

definition contentTypeStarts :: "'n MediaHints \<Rightarrow> string \<Rightarrow> bool" where
  "contentTypeStarts h p =
     (case map_option toLowerCase (hintContentType h) of
        Some t \<Rightarrow> startsWith t p
      | None \<Rightarrow> False)"

definition takenAsEmoji :: "'n MediaPlatform \<Rightarrow> string \<Rightarrow> 'n MediaHints \<Rightarrow> bool" where
  "takenAsEmoji pf mediaUrl h =
     (metaIsEmojiScheme (parseMediaUrlMeta pf mediaUrl)
      \<or> bothGiven (orElse (hintEmojiMd5 h) (metaEmojiMd5 (parseMediaUrlMeta pf mediaUrl)))
           (orElse (hintEmojiSize h) (metaEmojiSize (parseMediaUrlMeta pf mediaUrl))))"

section \<open>Concrete inputs\<close>

text \<open>
  Inputs on which the statements below are evaluated: a host runtime that holds a given
  pairing-store allow list and recognises no commands, an account with allow-list
  policies, a direct message and a group message.
\<close>

definition exampleRuntime :: "string list option \<Rightarrow> PluginRuntime" where
  "exampleRuntime store =
     \<lparr> shouldComputeCommandAuthorized = (\<lambda>body cfg. False),
       isControlCommandMessage = (\<lambda>body cfg. False),
       resolveCommandAuthorizedFromAuthorizers = (\<lambda>accessGroups authorizers. False),
       readAllowFromStore = store,
       upsertPairingRequest = (\<lambda>sender. (''000000'', True)) \<rparr>"

definition exampleConfig :: OpenClawConfig where
  "exampleConfig = \<lparr> defaultGroupPolicy = None, useAccessGroups = None \<rparr>"

definition exampleAccount ::
  "string list \<Rightarrow> (string \<times> string list) list \<Rightarrow> GroupTable \<Rightarrow> ResolvedWechatAccount" where
  "exampleAccount allowed members table =
     \<lparr> accountId = ''default'',
       config = \<lparr> dmPolicy = Some DmAllowlist, allowFrom = Some allowed,
                  groupMembers = Some members, groupPolicy = Some GroupAllowlist,
                  groups = Some table, accountRequireMention = None \<rparr> \<rparr>"

definition directMessage :: "string \<Rightarrow> string \<Rightarrow> WechatMessage" where
  "directMessage sender body =
     \<lparr> msgId = 1, newMsgId = 1, msgType = 1, content = Some body,
       fromUserName = sender, toUserName = ''bot'', isGroupMsg = False,
       isMentioned = None, actualSender = None, createTimeMsg = 0,
       senderNickname = None \<rparr>"

definition groupMessage ::
  "string \<Rightarrow> string \<Rightarrow> string \<Rightarrow> MentionFlag option \<Rightarrow> WechatMessage" where
  "groupMessage chat sender body flag =
     \<lparr> msgId = 1, newMsgId = 1, msgType = 1, content = Some body,
       fromUserName = chat, toUserName = ''bot'', isGroupMsg = True,
       isMentioned = flag, actualSender = Some sender, createTimeMsg = 0,
       senderNickname = None \<rparr>"

definition groupEntry :: "bool option \<Rightarrow> bool option \<Rightarrow> bool option \<Rightarrow> WechatGroupConfig" where
  "groupEntry a e r = \<lparr> allow = a, enabled = e, requireMention = r \<rparr>"

text \<open>
  A buffered entry with a given text and mention flag, and a platform that knows one
  URL, \<open>https://cdn.example.com/media/voice.mp3\<close>.
\<close>

definition exampleEntry :: "string \<Rightarrow> MentionFlag option \<Rightarrow> WechatInboundParams" where
  "exampleEntry body flag =
     \<lparr> entryMsg = groupMessage ''G1'' ''wxidA'' body flag,
       entryCfg = exampleConfig,
       entryAccount = exampleAccount [] [] [] \<rparr>"

definition examplePlatform :: "nat MediaPlatform" where
  "examplePlatform =
     \<lparr> newURL =
         (\<lambda>s. if s = ''https://cdn.example.com/media/voice.mp3''
              then Some \<lparr> pathname = ''/media/voice.mp3'', searchParams = [] \<rparr>
              else None),
       newURLSearchParams = (\<lambda>s. []),
       numberParseFloat = (\<lambda>s. 0),
       numberIsFinite = (\<lambda>n. True),
       mathTrunc = (\<lambda>n. n),
       decodeURIComponent = (\<lambda>s. Some s),
       getFileExtension =
         (\<lambda>s. if s = ''https://cdn.example.com/media/voice.mp3'' then Some ''.mp3'' else None) \<rparr>"

lemmas example_defs =
  exampleRuntime_def exampleConfig_def exampleAccount_def directMessage_def groupMessage_def
  groupEntry_def

section \<open>Facts about strings and normalisation\<close>

lemma char_eq_char_of_iff: "(c = char_of n) = (take_bit 8 n = (of_char c :: nat))"
  using char_of_eq_iff [of n c] by auto

lemmas eval_defs =
  processWechatInboundMessage_def handleRuoYiInboundMessage_def groupGate_def groupGateRuoYi_def
  admitSender_def admitSenderRuoYi_def Let_def resolveWechatSenderId_def
  normalizeAllowFromEntries_def normalizeAllowEntry_def normalizeWechatTarget_def
  normalizeAllowFromEntriesRuoYi_def normalizeAllowEntryRuoYi_def normalizeRuoYiTarget_def
  stripChannelPrefix_def stripRuoYiPrefix_def toLowerCase_def toLowerCaseChar_def
  char_of_eq_iff char_eq_char_of_iff
  trim_def isWhiteSpace_def uniqueInOrder_def isSenderAllowed_def isSenderAllowedRuoYi_def
  isGroupAllowed_def resolveGroupRequireMention_def resolveGroupRequireMentionRuoYi_def
  resolveGroupMemberAllowFrom_def resolveGroupMemberAllowFromRuoYi_def
  effectiveDmPolicy_def effectiveGroupPolicy_def trimmedContent_def groupTableOf_def
  ownGroupEntry_def wasMentioned_def

text \<open>Trimming the front of a list leaves its head outside the trimmed class.\<close>

lemma dropWhile_rev_trailing:
  "xs = [] \<or> \<not> P (hd xs) \<Longrightarrow>
   dropWhile P (rev (dropWhile P (rev xs))) = rev (dropWhile P (rev xs))"
  by (metis (no_types, lifting) dropWhile_eq_Nil_conv dropWhile_eq_self_iff dropWhile_last
      last_rev rev.simps(1) rev_rev_ident)

lemma trim_idem: "trim (trim s) = trim s"
proof -
  let ?t = "dropWhile isWhiteSpace s"
  have head: "?t = [] \<or> \<not> isWhiteSpace (hd ?t)"
    by (metis hd_dropWhile)
  have "dropWhile isWhiteSpace (trim s) = trim s"
    unfolding trim_def
    using dropWhile_rev_trailing [of "dropWhile isWhiteSpace s" isWhiteSpace] head by blast
  then show ?thesis
    by (simp add: trim_def)
qed

lemma stripChannelPrefix_Nil: "stripChannelPrefix [] = []"
  by (simp add: stripChannelPrefix_def toLowerCase_def)

lemma stripChannelPrefix_star: "stripChannelPrefix ''*'' = ''*''"
  by (simp add: stripChannelPrefix_def toLowerCase_def toLowerCaseChar_def char_of_eq_iff)

text \<open>
  The special cases of \<open>normalizeAllowEntry\<close> (the empty string, the wildcard, the
  \<open>??\<close> fallback) change nothing: it is "trim, then strip the prefix".
\<close>

lemma normalizeAllowEntry_eq: "normalizeAllowEntry e = stripChannelPrefix (trim e)"
  by (simp add: normalizeAllowEntry_def normalizeWechatTarget_def Let_def trim_idem
      stripChannelPrefix_Nil stripChannelPrefix_star)

lemma lower_normalizeAllowEntry: "toLowerCase (normalizeAllowEntry e) = specNormalize e"
  by (simp add: normalizeAllowEntry_eq specNormalize_def)

lemma arrayIncludes_iff: "arrayIncludes xs y = (y \<in> set xs)"
  by (induction xs) auto

lemma isSenderAllowed_set:
  "isSenderAllowed s L =
     (''*'' \<in> set L \<or> (\<exists>x \<in> set L. specNormalize x = specNormalize s))"
  by (simp add: isSenderAllowed_def Let_def lower_normalizeAllowEntry list_ex_iff
      arrayIncludes_iff)

lemma set_uniqueInOrder: "set (uniqueInOrder xs) = set xs"
  by (simp add: uniqueInOrder_def)

lemma isSenderAllowed_merged:
  "isSenderAllowed s (uniqueInOrder (A @ B)) = (isSenderAllowed s A \<or> isSenderAllowed s B)"
  by (auto simp: isSenderAllowed_set set_uniqueInOrder)

lemma normalizeAllowFromEntries_store:
  "normalizeAllowFromEntries (Some (case st of Some l \<Rightarrow> l | None \<Rightarrow> [])) =
   normalizeAllowFromEntries st"
  by (cases st) (simp_all add: normalizeAllowFromEntries_def)

section \<open>Facts about the group gate\<close>





section \<open>The access-policy engine\<close>









text \<open>
  Claim C1, as the code has it. For a direct message under DM policy \<open>allowlist\<close> (set, or
  by default): \<open>processWechatInboundMessage\<close> lets the message proceed exactly when its
  text is non-empty after trimming and the sender id matches, in the sense of
  \<open>isSenderAllowed\<close>, an entry of the account's configured allow list or an entry of the
  allow list read from the pairing store; \<open>handleRuoYiInboundMessage\<close> lets it proceed
  exactly when its text is non-empty and the sender id matches an entry of the configured
  allow list, and nothing else counts there.
\<close>

theorem dm_allowlist_sources:
  assumes "\<not> isGroupMsg msg" and "effectiveDmPolicy account = DmAllowlist"
  shows "isDispatched (processWechatInboundMessage core cfg account msg) =
           (trimmedContent msg \<noteq> [] \<and>
            (isSenderAllowed (fromUserName msg)
               (normalizeAllowFromEntries (allowFrom (config account)))
             \<or> isSenderAllowed (fromUserName msg)
                  (normalizeAllowFromEntries (readAllowFromStore core))))
       \<and> isDispatched (handleRuoYiInboundMessage core cfg account msg) =
           (trimmedContent msg \<noteq> [] \<and>
            isSenderAllowedRuoYi (fromUserName msg)
              (normalizeAllowFromEntriesRuoYi (allowFrom (config account))))"
proof
  show "isDispatched (processWechatInboundMessage core cfg account msg) =
           (trimmedContent msg \<noteq> [] \<and>
            (isSenderAllowed (fromUserName msg)
               (normalizeAllowFromEntries (allowFrom (config account)))
             \<or> isSenderAllowed (fromUserName msg)
                  (normalizeAllowFromEntries (readAllowFromStore core))))"
    using assms
    by (simp add: processWechatInboundMessage_def admitSender_def effectiveDmPolicy_def
        trimmedContent_def Let_def resolveWechatSenderId_def isSenderAllowed_merged
        normalizeAllowFromEntries_store)
next
  show "isDispatched (handleRuoYiInboundMessage core cfg account msg) =
           (trimmedContent msg \<noteq> [] \<and>
            isSenderAllowedRuoYi (fromUserName msg)
              (normalizeAllowFromEntriesRuoYi (allowFrom (config account))))"
    using assms
    by (simp add: handleRuoYiInboundMessage_def admitSenderRuoYi_def effectiveDmPolicy_def
        trimmedContent_def Let_def resolveWechatSenderId_def)
qed

text \<open>
  The configured allow list is \<open>wxidA\<close>, the pairing store holds \<open>wxidB\<close>. A direct message
  of \<open>WX:wxidb\<close> proceeds in \<open>processWechatInboundMessage\<close> and is dropped by
  \<open>handleRuoYiInboundMessage\<close>, which admits \<open>ry:WXIDA\<close>.
\<close>

theorem dm_allowlist_sources_witness:
  "isDispatched
     (processWechatInboundMessage (exampleRuntime (Some [''wxidB''])) exampleConfig
        (exampleAccount [''wxidA''] [] []) (directMessage ''WX:wxidb'' ''hello''))
   \<and> \<not> isDispatched
     (handleRuoYiInboundMessage (exampleRuntime (Some [''wxidB''])) exampleConfig
        (exampleAccount [''wxidA''] [] []) (directMessage ''WX:wxidb'' ''hello''))
   \<and> isDispatched
     (handleRuoYiInboundMessage (exampleRuntime None) exampleConfig
        (exampleAccount [''wxidA''] [] []) (directMessage ''ry:WXIDA'' ''hello''))"
  using
    dm_allowlist_sources [of "directMessage ''WX:wxidb'' ''hello''"
      "exampleAccount [''wxidA''] [] []" "exampleRuntime (Some [''wxidB''])" exampleConfig]
    dm_allowlist_sources [of "directMessage ''ry:WXIDA'' ''hello''"
      "exampleAccount [''wxidA''] [] []" "exampleRuntime None" exampleConfig]
  by (simp add: example_defs eval_defs)

text \<open>
  Claim C1 as stated fails in \<open>processWechatInboundMessage\<close>: under DM policy
  \<open>allowlist\<close> with the configured allow list \<open>wxidA\<close>, the sender \<open>wxidB\<close> is not on the
  configured list, and its direct message proceeds when the pairing store holds \<open>wxidB\<close>
  and is dropped when the store is empty. The pairing store is a second source of allowed
  ids.
\<close>

theorem dm_allowlist_store_counterexample:
  "effectiveDmPolicy (exampleAccount [''wxidA''] [] []) = DmAllowlist
   \<and> \<not> isGroupMsg (directMessage ''wxidB'' ''hello'')
   \<and> \<not> isSenderAllowed ''wxidB''
         (normalizeAllowFromEntries (allowFrom (config (exampleAccount [''wxidA''] [] []))))
   \<and> isDispatched
       (processWechatInboundMessage (exampleRuntime (Some [''wxidB''])) exampleConfig
          (exampleAccount [''wxidA''] [] []) (directMessage ''wxidB'' ''hello''))
   \<and> \<not> isDispatched
       (processWechatInboundMessage (exampleRuntime (Some [])) exampleConfig
          (exampleAccount [''wxidA''] [] []) (directMessage ''wxidB'' ''hello''))"
  by (simp add: example_defs eval_defs)

section \<open>Facts about the connection client\<close>

lemmas client_defs =
  newClient_def connect_def disconnect_def scheduleReconnect_def socketCloses_def socketOpens_def
  socketErrors_def timerFires_def send_def transition_def reconnectDelay_def
  maxReconnectAttempts_def atRest_def live_def closeCalled_def opened_def Let_def

lemma live_pair: "live (i, st) = (st \<noteq> CLOSED)"
  by (simp add: live_def)

lemma transition_Nil: "transition s f [] = []"
  by (simp add: transition_def)

lemma transition_Cons:
  "transition s f ((i, st) # socks) =
     (if i = s then (i, f st) else (i, st)) # transition s f socks"
  by (simp add: transition_def)

lemma live_transition_le:
  assumes "\<And>st. f st \<noteq> CLOSED \<Longrightarrow> st \<noteq> CLOSED"
  shows "length (filter live (transition s f socks)) \<le> length (filter live socks)"
proof (induction socks)
  case Nil
  then show ?case by (simp add: transition_Nil)
next
  case (Cons p socks)
  obtain i st where p: "p = (i, st)" by (cases p)
  from Cons assms [of st] show ?case
    by (auto simp: transition_Cons live_pair p)
qed

lemma live_transition_closed:
  "map_of socks s = Some st \<Longrightarrow> st \<noteq> CLOSED \<Longrightarrow>
   length (filter live (transition s (\<lambda>st. CLOSED) socks)) < length (filter live socks)"
proof (induction socks)
  case Nil
  then show ?case by simp
next
  case (Cons p socks)
  obtain i st' where p: "p = (i, st')" by (cases p)
  have le: "length (filter live (transition s (\<lambda>st. CLOSED) socks)) \<le> length (filter live socks)"
    by (rule live_transition_le) simp
  show ?case
  proof (cases "i = s")
    case True
    with Cons.prems p have "st' \<noteq> CLOSED" by simp
    with le True show ?thesis
      by (simp add: transition_Cons live_pair p)
  next
    case False
    with Cons p show ?thesis
      by (simp add: transition_Cons live_pair)
  qed
qed

lemma timers_all_named:
  "list_all (\<lambda>p. rt = Some (fst p)) ts \<Longrightarrow>
   (case rt of Some t \<Rightarrow> filter (\<lambda>(h, d). h \<noteq> t) ts | None \<Rightarrow> ts) = []"
  by (cases rt; cases ts) (auto simp: list_all_iff filter_empty_conv)

lemma timers_disconnect:
  "timers (disconnect w) =
     (case reconnectTimer w of Some t \<Rightarrow> filter (\<lambda>(h, d). h \<noteq> t) (timers w) | None \<Rightarrow> timers w)"
  by (simp add: disconnect_def Let_def split: option.splits)

lemma reconnectTimer_disconnect: "reconnectTimer (disconnect w) = None"
  by (simp add: disconnect_def Let_def split: option.splits)

lemma sockets_disconnect:
  "length (filter live (sockets (disconnect w))) \<le> length (filter live (sockets w))"
proof -
  have "length (filter live (transition s closeCalled socks)) \<le> length (filter live socks)"
    for s socks
    by (rule live_transition_le) (auto simp: closeCalled_def split: if_splits)
  then show ?thesis
    by (simp add: disconnect_def Let_def split: option.splits)
qed

lemma inv_disconnect: "clientInv w \<Longrightarrow> clientInv (disconnect w)"
  using timers_all_named [of "reconnectTimer w" "timers w"] sockets_disconnect [of w]
  by (simp add: clientInv_def timers_disconnect)

lemma send_frame: "sockets (snd (send f w)) = sockets w \<and> timers (snd (send f w)) = timers w
   \<and> reconnectTimer (snd (send f w)) = reconnectTimer w"
  by (simp add: send_def split: option.splits)

lemma inv_send: "clientInv w \<Longrightarrow> clientInv (snd (send f w))"
  by (simp add: clientInv_def send_frame)

lemma inv_connect: "atRest w \<Longrightarrow> clientInv (connect w)"
  by (simp add: clientInv_def atRest_def connect_def Let_def live_def)

lemma inv_opens: "clientInv w \<Longrightarrow> clientInv (socketOpens r s w)"
proof -
  have "length (filter live (transition s opened (sockets w))) \<le> length (filter live (sockets w))"
    by (rule live_transition_le) (auto simp: opened_def split: if_splits)
  then show "clientInv w \<Longrightarrow> clientInv (socketOpens r s w)"
    by (simp add: clientInv_def socketOpens_def Let_def send_frame)
qed

lemma inv_errors: "clientInv w \<Longrightarrow> clientInv (socketErrors s w)"
  by (simp add: clientInv_def socketErrors_def)

lemma inv_closes:
  assumes "clientInv w" and "map_of (sockets w) s = Some st" and "st \<noteq> CLOSED"
  shows "clientInv (socketCloses s w)"
proof -
  from live_transition_closed [OF assms(2,3)] assms(1)
  have "length (filter live (transition s (\<lambda>st. CLOSED) (sockets w))) = 0
      \<and> length (timers w) = 0"
    unfolding clientInv_def by linarith
  then have "filter live (transition s (\<lambda>st. CLOSED) (sockets w)) = []" and "timers w = []"
    by simp_all
  then show ?thesis
    by (simp add: clientInv_def socketCloses_def scheduleReconnect_def Let_def)
qed

lemma inv_fires:
  assumes "clientInv w" and "t \<in> fst ` set (timers w)"
  shows "clientInv (timerFires t w)"
proof -
  from assms(2) have ne: "timers w \<noteq> []" by auto
  with assms(1) have nolive: "filter live (sockets w) = []"
    by (cases "timers w") (simp_all add: clientInv_def)
  from assms have "reconnectTimer w = Some t"
    by (auto simp: clientInv_def list_all_iff)
  with assms(1) have "filter (\<lambda>(h, d). h \<noteq> t) (timers w) = []"
    using timers_all_named [of "reconnectTimer w" "timers w"] by (simp add: clientInv_def)
  with nolive show ?thesis
    by (simp add: clientInv_def timerFires_def connect_def Let_def live_def)
qed

lemma inv_step:
  assumes "clientInv w" and "step r e w = Some w'" and "e = CallConnect \<longrightarrow> atRest w"
  shows "clientInv w'"
proof (cases e)
  case CallConnect
  with assms show ?thesis by (auto simp: inv_connect)
next
  case CallDisconnect
  with assms show ?thesis by (auto simp: inv_disconnect)
next
  case (CallSend f)
  with assms show ?thesis by (auto simp: inv_send)
next
  case (SocketOpens s)
  with assms show ?thesis by (auto simp: inv_opens split: if_splits)
next
  case (SocketErrors s)
  with assms show ?thesis by (auto simp: inv_errors split: option.splits if_splits)
next
  case (SocketCloses s)
  with assms show ?thesis by (auto simp: inv_closes split: option.splits if_splits)
next
  case (TimerFires t)
  with assms(2) have "t \<in> fst ` set (timers w)" and "w' = timerFires t w"
    by (simp_all split: if_splits)
  with assms(1) show ?thesis by (simp add: inv_fires)
qed

lemma inv_runFromRest:
  "clientInv w \<Longrightarrow> runFromRest r es w = Some w' \<Longrightarrow> clientInv w'"
proof (induction es arbitrary: w)
  case Nil
  then show ?case by simp
next
  case (Cons e es)
  from Cons.prems(2) obtain w1 where s: "step r e w = Some w1"
    and g: "e = CallConnect \<longrightarrow> atRest w" and rest: "runFromRest r es w1 = Some w'"
    by (auto split: if_splits option.splits)
  from inv_step [OF Cons.prems(1) s g] have "clientInv w1" .
  from Cons.IH [OF this rest] show ?case .
qed

lemma inv_newClient: "clientInv newClient"
  by (simp add: clientInv_def newClient_def)

section \<open>Reconnection and sending\<close>

text \<open>
  Claim C5, as the code has it. \<open>scheduleReconnect\<close> increments the attempt counter and
  then computes the delay from it. While the counter is below the maximum of 10 it
  schedules exactly one more timeout, whose delay is the minimum of 1000 times 2 to the
  power of the incremented counter and 30000 milliseconds; once the counter has reached
  10 it schedules nothing and leaves the counter and the timer handle alone. The delay
  never decreases from one attempt to the next, never exceeds 30 seconds and doubles as
  long as the doubled value stays within 30 seconds. The first delay, after the first
  failure, is 2 seconds.
\<close>

theorem reconnect_backoff:
  "(reconnectAttempts w < 10 \<longrightarrow>
      timers (scheduleReconnect w) =
        timers w @ [(nextHandle w, min (1000 * 2 ^ (reconnectAttempts w + 1)) 30000)]
      \<and> reconnectAttempts (scheduleReconnect w) = reconnectAttempts w + 1
      \<and> reconnectTimer (scheduleReconnect w) = Some (nextHandle w))
   \<and> (10 \<le> reconnectAttempts w \<longrightarrow>
      timers (scheduleReconnect w) = timers w
      \<and> reconnectAttempts (scheduleReconnect w) = reconnectAttempts w
      \<and> reconnectTimer (scheduleReconnect w) = reconnectTimer w)
   \<and> reconnectDelay n \<le> reconnectDelay (n + 1)
   \<and> reconnectDelay n \<le> 30000
   \<and> (1000 * 2 ^ (n + 1) \<le> (30000 :: nat) \<longrightarrow> reconnectDelay (n + 1) = 2 * reconnectDelay n)
   \<and> reconnectDelay 1 = 2000"
proof (intro conjI impI)
  assume "reconnectAttempts w < 10"
  then show "timers (scheduleReconnect w) =
        timers w @ [(nextHandle w, min (1000 * 2 ^ (reconnectAttempts w + 1)) 30000)]"
    and "reconnectAttempts (scheduleReconnect w) = reconnectAttempts w + 1"
    and "reconnectTimer (scheduleReconnect w) = Some (nextHandle w)"
    by (simp_all add: scheduleReconnect_def reconnectDelay_def maxReconnectAttempts_def Let_def)
next
  assume "10 \<le> reconnectAttempts w"
  then show "timers (scheduleReconnect w) = timers w"
    and "reconnectAttempts (scheduleReconnect w) = reconnectAttempts w"
    and "reconnectTimer (scheduleReconnect w) = reconnectTimer w"
    by (simp_all add: scheduleReconnect_def maxReconnectAttempts_def)
next
  show "reconnectDelay n \<le> reconnectDelay (n + 1)"
    by (simp add: reconnectDelay_def min_le_iff_disj)
next
  show "reconnectDelay n \<le> 30000"
    by (simp add: reconnectDelay_def)
next
  assume "1000 * 2 ^ (n + 1) \<le> (30000 :: nat)"
  then show "reconnectDelay (n + 1) = 2 * reconnectDelay n"
    by (simp add: reconnectDelay_def min_def)
next
  show "reconnectDelay 1 = 2000"
    by (simp add: reconnectDelay_def)
qed

text \<open>
  A new client whose every connection attempt fails: the delays announced are 2, 4, 8
  and 16 seconds and then six times 30 seconds; after the tenth failed reconnect the
  counter stands at 10 and no timeout is pending.
\<close>

theorem reconnect_backoff_witness:
  "timers (scheduleReconnect newClient) = [(1, 2000)]
   \<and> timers (scheduleReconnect (newClient\<lparr>reconnectAttempts := 10\<rparr>)) = []
   \<and> reconnectDelay 4 = 2 * reconnectDelay 3
   \<and> map_option (\<lambda>w. (scheduledDelays (logged w), reconnectAttempts w, timers w))
        (run ''bot''
           [CallConnect, SocketCloses 1, TimerFires 2, SocketCloses 3, TimerFires 4,
            SocketCloses 5, TimerFires 6, SocketCloses 7, TimerFires 8, SocketCloses 9,
            TimerFires 10, SocketCloses 11, TimerFires 12, SocketCloses 13, TimerFires 14,
            SocketCloses 15, TimerFires 16, SocketCloses 17, TimerFires 18, SocketCloses 19,
            TimerFires 20, SocketCloses 21]
           newClient)
       = Some ([2000, 4000, 8000, 16000, 30000, 30000, 30000, 30000, 30000, 30000], 10, [])"
proof -
  have below: "reconnectAttempts newClient < 10"
    by (simp add: newClient_def)
  have reached: "10 \<le> reconnectAttempts (newClient\<lparr>reconnectAttempts := 10\<rparr>)"
    by simp
  have room: "1000 * 2 ^ (3 + 1) \<le> (30000 :: nat)"
    by simp
  from reconnect_backoff [of newClient 3] below
  have first: "timers (scheduleReconnect newClient) = [(1, 2000)]"
    by (simp add: newClient_def)
  from reconnect_backoff [of "newClient\<lparr>reconnectAttempts := 10\<rparr>" 3] reached
  have none: "timers (scheduleReconnect (newClient\<lparr>reconnectAttempts := 10\<rparr>)) = []"
    by (simp add: newClient_def)
  from reconnect_backoff [of newClient 3] room
  have double: "reconnectDelay 4 = 2 * reconnectDelay 3"
    by simp
  have trace: "map_option (\<lambda>w. (scheduledDelays (logged w), reconnectAttempts w, timers w))
        (run ''bot''
           [CallConnect, SocketCloses 1, TimerFires 2, SocketCloses 3, TimerFires 4,
            SocketCloses 5, TimerFires 6, SocketCloses 7, TimerFires 8, SocketCloses 9,
            TimerFires 10, SocketCloses 11, TimerFires 12, SocketCloses 13, TimerFires 14,
            SocketCloses 15, TimerFires 16, SocketCloses 17, TimerFires 18, SocketCloses 19,
            TimerFires 20, SocketCloses 21]
           newClient)
       = Some ([2000, 4000, 8000, 16000, 30000, 30000, 30000, 30000, 30000, 30000], 10, [])"
    by (simp add: client_defs)
  from first none double trace show ?thesis by blast
qed

text \<open>
  Claim C5 as stated fails at the first attempt: the backoff does not start at 1 second.
  On a new client whose first connection fails, the one timeout scheduled has a delay of
  2000 milliseconds, while the stated formula gives 1000 for the attempt it numbers 0.
\<close>

theorem reconnect_first_delay_counterexample:
  "map_option (map snd \<circ> timers) (run ''bot'' [CallConnect, SocketCloses 1] newClient)
     = Some [2000]
   \<and> min (1000 * 2 ^ 0) 30000 = (1000 :: nat)
   \<and> reconnectDelay (reconnectAttempts newClient) = 1000"
  by (simp add: client_defs)

text \<open>
  Claim C8, as the code has it. When the socket is not open, each sending method
  (\<open>sendText\<close>, \<open>sendImage\<close>, \<open>markProcessed\<close>, \<open>queryContacts\<close>; \<open>websocket.ts\<close> has no
  other) returns normally; the only change is one more logged warning "not connected,
  send failed". No frame reaches the wire and none is kept for later, and no error
  reaches the caller.
\<close>

theorem send_when_not_connected:
  "\<not> isConnected w \<longrightarrow>
     sendText toWxid body at w =
       (Returned, w\<lparr>logged := logged w @ [WarnNotConnectedSendFailed]\<rparr>)
     \<and> sendImage toWxid imageUrl w =
       (Returned, w\<lparr>logged := logged w @ [WarnNotConnectedSendFailed]\<rparr>)
     \<and> markProcessed messageIds w =
       (Returned, w\<lparr>logged := logged w @ [WarnNotConnectedSendFailed]\<rparr>)
     \<and> queryContacts contactType w =
       (Returned, w\<lparr>logged := logged w @ [WarnNotConnectedSendFailed]\<rparr>)"
  by (simp add: isConnected_def sendText_def sendImage_def markProcessed_def queryContacts_def
      send_def split: option.splits)

text \<open>
  A client that was never connected, and a client whose socket is still connecting:
  \<open>sendText\<close> returns, logs the warning and puts nothing on the wire.
\<close>

theorem send_when_not_connected_witness:
  "\<not> isConnected newClient
   \<and> sendText ''wxid_a'' ''hello'' [] newClient =
       (Returned, newClient\<lparr>logged := [WarnNotConnectedSendFailed]\<rparr>)
   \<and> \<not> isConnected (connect newClient)
   \<and> fst (sendText ''wxid_a'' ''hello'' [] (connect newClient)) = Returned
   \<and> wire (snd (sendText ''wxid_a'' ''hello'' [] (connect newClient))) = []"
  using send_when_not_connected [of newClient "''wxid_a''" "''hello''" "[]"]
    send_when_not_connected [of "connect newClient" "''wxid_a''" "''hello''" "[]"]
  by (simp add: isConnected_def newClient_def connect_def Let_def)

text \<open>
  Claim C8 as stated fails: on a client that is not connected \<open>sendText\<close> does not fail
  with a "not connected" condition, it returns.
\<close>

theorem send_returns_counterexample:
  "\<not> isConnected newClient
   \<and> fst (sendText ''wxid_a'' ''hello'' [] newClient) \<noteq> Threw NotConnected
   \<and> fst (sendText ''wxid_a'' ''hello'' [] newClient) = Returned"
  by (simp add: isConnected_def newClient_def sendText_def send_def)

text \<open>
  Claim C9, as the code has it. In every state a client reaches from its construction
  when \<open>connect()\<close> is only called on a client at rest (no timeout pending, every socket
  closed), at most one reconnect timeout is pending, it is the one \<open>reconnectTimer\<close>
  names, and \<open>disconnect()\<close> leaves no timeout pending. In any state whatever,
  \<open>disconnect()\<close> clears \<open>reconnectTimer\<close> and cancels the timeout it named, and
  \<open>connect()\<close> leaves \<open>reconnectTimer\<close> and every pending timeout as they are.
\<close>

theorem reconnect_timer_discipline:
  "(runFromRest r es newClient = Some w \<longrightarrow>
      length (timers w) \<le> 1
      \<and> list_all (\<lambda>p. reconnectTimer w = Some (fst p)) (timers w)
      \<and> timers (disconnect w) = [])
   \<and> reconnectTimer (disconnect v) = None
   \<and> (reconnectTimer v = Some t \<longrightarrow> t \<notin> fst ` set (timers (disconnect v)))
   \<and> timers (connect v) = timers v
   \<and> reconnectTimer (connect v) = reconnectTimer v"
proof (intro conjI impI)
  assume "runFromRest r es newClient = Some w"
  from inv_runFromRest [OF inv_newClient this] have inv: "clientInv w" .
  then show "length (timers w) \<le> 1"
    and "list_all (\<lambda>p. reconnectTimer w = Some (fst p)) (timers w)"
    by (simp_all add: clientInv_def)
  from inv timers_all_named [of "reconnectTimer w" "timers w"]
  show "timers (disconnect w) = []"
    by (simp add: clientInv_def timers_disconnect)
next
  show "reconnectTimer (disconnect v) = None" by (rule reconnectTimer_disconnect)
next
  assume "reconnectTimer v = Some t"
  then show "t \<notin> fst ` set (timers (disconnect v))"
    by (auto simp: timers_disconnect)
next
  show "timers (connect v) = timers v" by (simp add: connect_def Let_def)
next
  show "reconnectTimer (connect v) = reconnectTimer v" by (simp add: connect_def Let_def)
qed

text \<open>
  A client connects, the socket opens and later closes: one timeout of 2 seconds is
  pending, and \<open>disconnect()\<close> cancels it.
\<close>

theorem reconnect_timer_discipline_witness:
  "\<exists>w. runFromRest ''bot'' [CallConnect, SocketOpens 1, SocketCloses 1] newClient = Some w
       \<and> timers w = [(2, 2000)]
       \<and> reconnectTimer w = Some 2
       \<and> timers (disconnect w) = []
       \<and> 2 \<notin> fst ` set (timers (disconnect w))"
proof -
  have "\<exists>w. runFromRest ''bot'' [CallConnect, SocketOpens 1, SocketCloses 1] newClient = Some w
       \<and> timers w = [(2, 2000)] \<and> reconnectTimer w = Some 2"
    by (simp add: client_defs)
  then obtain w
    where w: "runFromRest ''bot'' [CallConnect, SocketOpens 1, SocketCloses 1] newClient = Some w"
      and t: "timers w = [(2, 2000)]" and h: "reconnectTimer w = Some 2"
    by blast
  from reconnect_timer_discipline [of "''bot''" "[CallConnect, SocketOpens 1, SocketCloses 1]" w w 2]
    w t h
  show ?thesis by simp
qed

text \<open>
  Claim C9 as stated fails when \<open>connect()\<close> is called while a reconnect timeout is
  pending. After a failed connection one timeout is pending; a second \<open>connect()\<close> leaves
  it pending; when the second connection fails too, two reconnect timeouts are pending.
\<close>

theorem connect_keeps_timer_counterexample:
  "map_option timers (run ''bot'' [CallConnect, SocketCloses 1] newClient) = Some [(2, 2000)]
   \<and> map_option timers (run ''bot'' [CallConnect, SocketCloses 1, CallConnect] newClient)
       = Some [(2, 2000)]
   \<and> map_option timers
        (run ''bot'' [CallConnect, SocketCloses 1, CallConnect, SocketCloses 3] newClient)
       = Some [(2, 2000), (4, 4000)]"
  by (simp add: client_defs)

section \<open>Facts about the debounce merge and the media path\<close>

text \<open>Joining a list that has a non-empty element gives a non-empty string.\<close>

lemma join_nonempty: "\<exists>x \<in> set xs. x \<noteq> [] \<Longrightarrow> join sep xs \<noteq> []"
  by (induction sep xs rule: join.induct) auto

text \<open>An entry the debouncer buffers has text left after trimming.\<close>

lemma shouldDebounce_text:
  "shouldDebounce core e \<Longrightarrow> trimmedContent (entryMsg e) \<noteq> []"
  by (auto simp: shouldDebounce_def trimmedContent_def Let_def split: if_splits)

lemma merged_text_nonempty:
  assumes "entries \<noteq> []" and "list_all (shouldDebounce core) entries"
  shows "join sep (filter (\<lambda>part. part \<noteq> []) (map (trimmedContent \<circ> entryMsg) entries)) \<noteq> []"
proof -
  from assms obtain e where "e \<in> set entries" and "trimmedContent (entryMsg e) \<noteq> []"
    by (cases entries) (auto dest: shouldDebounce_text)
  then have "\<exists>x \<in> set (filter (\<lambda>part. part \<noteq> []) (map (trimmedContent \<circ> entryMsg) entries)).
      x \<noteq> []"
    by auto
  then show ?thesis by (rule join_nonempty)
qed

text \<open>
  The merged message when the joined text is non-empty: the last message with the
  joined text and the combined mention flag.
\<close>

lemma merge_result:
  assumes "entries \<noteq> []"
    and "join [CHR 0x0A] (filter (\<lambda>part. part \<noteq> []) (map (trimmedContent \<circ> entryMsg) entries)) \<noteq> []"
  shows "mergeWechatInboundMessages entries =
     Inr ((entryMsg (last entries))
            \<lparr> content :=
                Some (join [CHR 0x0A]
                        (filter (\<lambda>part. part \<noteq> []) (map (trimmedContent \<circ> entryMsg) entries))),
              isMentioned :=
                (if list_ex (wasMentioned \<circ> entryMsg) entries then Some (MentionBool True)
                 else isMentioned (entryMsg (last entries))) \<rparr>)"
proof -
  have texts: "map (\<lambda>entry. case content (entryMsg entry) of Some c \<Rightarrow> trim c | None \<Rightarrow> []) entries
      = map (trimmedContent \<circ> entryMsg) entries"
    by (simp add: trimmedContent_def)
  have flags: "list_ex (\<lambda>entry. case isMentioned (entryMsg entry) of
                                  Some flag \<Rightarrow> flagTruthy flag | None \<Rightarrow> False) entries
      = list_ex (wasMentioned \<circ> entryMsg) entries"
    by (simp add: wasMentioned_def list_ex_iff)
  from assms show ?thesis
    unfolding mergeWechatInboundMessages_def Let_def texts flags by simp
qed

text \<open>Definitions to unfold when the media path is evaluated on a concrete call.\<close>

lemmas media_defs =
  sendWechatMedia_def resolveMediaSpec_def parseMediaUrlMeta_def parseEmojiUrl_def
  inferFileNameFromMediaUrl_def fallbackToFile_def fallbackFileName_def afterEffects_def
  requireWechatOutboundTarget_def resolveWechatOutboundTarget_def parseDuration_def
  trimmedOrUndefined_def plainMeta_def bothGiven_def orElse_def extensionIn_def noHints_def
  hintsOf_def contentTypeStarts_def takenAsEmoji_def AUDIO_EXTS_def VIDEO_EXTS_def
  IMAGE_EXTS_def examplePlatform_def startsWith_def

text \<open>When \<open>resolveMediaSpec\<close> answers \<open>voice\<close>, and what it then puts into the spec.\<close>

lemma kind_voice:
  "(specKind (resolveMediaSpec pf u hintsArg) = MediaVoice) =
     (\<not> takenAsEmoji pf u (hintsOf hintsArg)
      \<and> (hintAsVoice (hintsOf hintsArg) = Some True
         \<or> contentTypeStarts (hintsOf hintsArg) ''audio/''
         \<or> (\<not> contentTypeStarts (hintsOf hintsArg) ''video/''
            \<and> \<not> contentTypeStarts (hintsOf hintsArg) ''image/''
            \<and> extensionIn
                 (getFileExtension pf
                    (case hintFileName (hintsOf hintsArg) of Some n \<Rightarrow> n | None \<Rightarrow> u))
                 AUDIO_EXTS)))"
  by (simp add: resolveMediaSpec_def Let_def takenAsEmoji_def hintsOf_def contentTypeStarts_def)

lemma voice_fields:
  assumes "specKind (resolveMediaSpec pf u hintsArg) = MediaVoice"
  shows "specFileName (resolveMediaSpec pf u hintsArg) =
           orElse (hintFileName (hintsOf hintsArg))
             (orElse (metaFileName (parseMediaUrlMeta pf u)) (inferFileNameFromMediaUrl pf u))"
    and "specVoiceDuration (resolveMediaSpec pf u hintsArg) =
           orElse (hintVoiceDuration (hintsOf hintsArg))
             (metaVoiceDuration (parseMediaUrlMeta pf u))"
  using assms
  by (simp_all add: resolveMediaSpec_def Let_def hintsOf_def split: if_splits)

text \<open>The voice branch of \<open>sendWechatMedia\<close> when the spec has no duration.\<close>

lemma sendWechatMedia_voice:
  assumes "requireWechatOutboundTarget (Some chatIdArg) = Inr target"
    and "trim mediaUrl \<noteq> []"
    and "specKind (resolveMediaSpec pf (trim mediaUrl) hintsArg) = MediaVoice"
    and "specVoiceDuration (resolveMediaSpec pf (trim mediaUrl) hintsArg) = None"
  shows "sendWechatMedia pf chatIdArg mediaUrl hintsArg strictArg =
     (if strictArg = Some True then Inl VoiceDurationRequired
      else afterEffects [Warned VoiceDurationMissingFallback]
             (fallbackToFile pf target (trim mediaUrl)
                (resolveMediaSpec pf (trim mediaUrl) hintsArg) False))"
  using assms by (cases strictArg) (simp_all add: sendWechatMedia_def Let_def)

section \<open>The debounce merge and the voice fallback\<close>

text \<open>
  Claim C6. A bucket of two or more entries, each admitted by \<open>shouldDebounce\<close> (the
  debouncer buffers no other entry), is merged into one message: its text is the trimmed
  non-empty texts of the entries in arrival order with a line feed between neighbours,
  its mention flag is \<open>true\<close> exactly when some entry's flag is truthy, every other field
  is that of the last entry's message, and \<open>onFlush\<close> hands on the last entry with this
  message. A bucket of one entry is handed on as it is.
\<close>

theorem merge_bucket:
  assumes "2 \<le> length entries" and "list_all (shouldDebounce core) entries"
  shows "\<exists>merged.
      mergeWechatInboundMessages entries = Inr merged
      \<and> content merged =
          Some (join [CHR 0x0A]
                  (filter (\<lambda>part. part \<noteq> []) (map (trimmedContent \<circ> entryMsg) entries)))
      \<and> (isMentioned merged = Some (MentionBool True))
          = (\<exists>e \<in> set entries. wasMentioned (entryMsg e))
      \<and> wasMentioned merged = (\<exists>e \<in> set entries. wasMentioned (entryMsg e))
      \<and> merged = (entryMsg (last entries))
                    \<lparr>content := content merged, isMentioned := isMentioned merged\<rparr>
      \<and> onFlush entries = Inr (Some ((last entries)\<lparr>entryMsg := merged\<rparr>))
      \<and> onFlush [single] = Inr (Some single)"
proof -
  define joined where
    "joined = join [CHR 0x0A]
                (filter (\<lambda>part. part \<noteq> []) (map (trimmedContent \<circ> entryMsg) entries))"
  define flag where
    "flag = (if list_ex (wasMentioned \<circ> entryMsg) entries then Some (MentionBool True)
             else isMentioned (entryMsg (last entries)))"
  define merged where
    "merged = (entryMsg (last entries))\<lparr>content := Some joined, isMentioned := flag\<rparr>"
  from assms(1) have ne: "entries \<noteq> []" and many: "length entries \<noteq> 1" by auto
  have m: "mergeWechatInboundMessages entries = Inr merged"
    unfolding merged_def joined_def flag_def
    by (rule merge_result [OF ne merged_text_nonempty [OF ne assms(2)]])
  from ne have lastIn: "last entries \<in> set entries" by simp
  have any: "list_ex (wasMentioned \<circ> entryMsg) entries
      = (\<exists>e \<in> set entries. wasMentioned (entryMsg e))"
    by (simp add: list_ex_iff)
  have c: "content merged = Some joined" by (simp add: merged_def)
  have f: "isMentioned merged = flag" by (simp add: merged_def)
  have w: "wasMentioned merged = (\<exists>e \<in> set entries. wasMentioned (entryMsg e))"
  proof (cases "list_ex (wasMentioned \<circ> entryMsg) entries")
    case True
    then show ?thesis using any by (simp add: wasMentioned_def f flag_def)
  next
    case False
    then have "\<not> wasMentioned (entryMsg (last entries))" using lastIn any by blast
    then show ?thesis using False any by (simp add: wasMentioned_def f flag_def)
  qed
  have t: "(isMentioned merged = Some (MentionBool True))
      = (\<exists>e \<in> set entries. wasMentioned (entryMsg e))"
  proof (cases "list_ex (wasMentioned \<circ> entryMsg) entries")
    case True
    then show ?thesis using any by (simp add: f flag_def)
  next
    case False
    then have "\<not> wasMentioned (entryMsg (last entries))" using lastIn any by blast
    then have "isMentioned (entryMsg (last entries)) \<noteq> Some (MentionBool True)"
      by (auto simp: wasMentioned_def)
    then show ?thesis using False any by (simp add: f flag_def)
  qed
  have r: "merged = (entryMsg (last entries))
                      \<lparr>content := content merged, isMentioned := isMentioned merged\<rparr>"
    by (simp add: merged_def)
  have o: "onFlush entries = Inr (Some ((last entries)\<lparr>entryMsg := merged\<rparr>))"
    using ne many by (simp add: onFlush_def m)
  have s: "onFlush [single] = Inr (Some single)" by (simp add: onFlush_def)
  from m c [unfolded joined_def] t w r o s show ?thesis by blast
qed

text \<open>
  Three entries with the texts \<open>" a "\<close>, \<open>"b"\<close> and \<open>"c "\<close>, the second one mentioned with
  the flag \<open>1\<close>: the merged text is \<open>a\<close>, \<open>b\<close>, \<open>c\<close> on three lines and the flag is \<open>true\<close>.
\<close>

theorem merge_bucket_witness:
  "2 \<le> length [exampleEntry '' a '' None, exampleEntry ''b'' (Some (MentionNumber 1)),
                 exampleEntry ''c '' None]
   \<and> list_all (shouldDebounce (exampleRuntime None))
        [exampleEntry '' a '' None, exampleEntry ''b'' (Some (MentionNumber 1)),
         exampleEntry ''c '' None]
   \<and> mergeWechatInboundMessages
        [exampleEntry '' a '' None, exampleEntry ''b'' (Some (MentionNumber 1)),
         exampleEntry ''c '' None]
      = Inr (groupMessage ''G1'' ''wxidA'' [CHR ''a'', CHR 0x0A, CHR ''b'', CHR 0x0A, CHR ''c'']
               (Some (MentionBool True)))
   \<and> onFlush
        [exampleEntry '' a '' None, exampleEntry ''b'' (Some (MentionNumber 1)),
         exampleEntry ''c '' None]
      = Inr (Some (exampleEntry [CHR ''a'', CHR 0x0A, CHR ''b'', CHR 0x0A, CHR ''c'']
                     (Some (MentionBool True))))
   \<and> onFlush [exampleEntry '' a '' None] = Inr (Some (exampleEntry '' a '' None))"
  using merge_bucket [of "[exampleEntry '' a '' None, exampleEntry ''b'' (Some (MentionNumber 1)),
                          exampleEntry ''c '' None]"
                        "exampleRuntime None" "exampleEntry '' a '' None"]
  by (simp add: exampleEntry_def example_defs shouldDebounce_def mergeWechatInboundMessages_def
      onFlush_def eval_defs)

text \<open>
  Claim C7, as the code has it. For a call of \<open>sendWechatMedia\<close> with a destination that
  is not empty once normalised and a URL that is not empty once trimmed, whose media
  reference \<open>resolveMediaSpec\<close> classifies as voice without a duration: with \<open>strict\<close>
  unset or \<open>false\<close> the call returns, after the warning that the duration is missing,
  and either sends the URL as a file under the fallback name or, when that name is
  empty, logs a second warning and sends nothing; with \<open>strict\<close> set it throws. The
  fallback name is the hinted file name, else the one in the URL's query, else the one
  inferred from the URL, else \<open>file\<close> followed by the extension. The classification
  as voice means that the emoji branch was not taken and that the voice hint is set,
  or the content type starts with \<open>audio/\<close>, or the extension is an audio extension; the
  missing duration means that neither the hints nor the URL's query give one.
\<close>

theorem voice_without_duration:
  assumes "requireWechatOutboundTarget (Some chatIdArg) = Inr target"
    and "trim mediaUrl \<noteq> []"
    and "specKind (resolveMediaSpec pf (trim mediaUrl) hintsArg) = MediaVoice"
    and "specVoiceDuration (resolveMediaSpec pf (trim mediaUrl) hintsArg) = None"
  shows "(sendWechatMedia pf chatIdArg mediaUrl hintsArg None =
           Inr (if fallbackFileName pf (resolveMediaSpec pf (trim mediaUrl) hintsArg)
                     (trim mediaUrl) = []
                then [Warned VoiceDurationMissingFallback, Warned MissingFileNameSkipped]
                else [Warned VoiceDurationMissingFallback,
                      CallSendFile target (trim mediaUrl)
                        (fallbackFileName pf (resolveMediaSpec pf (trim mediaUrl) hintsArg)
                           (trim mediaUrl)),
                      StatusLastOutbound]))
    \<and> (sendWechatMedia pf chatIdArg mediaUrl hintsArg (Some False) =
           sendWechatMedia pf chatIdArg mediaUrl hintsArg None)
    \<and> (sendWechatMedia pf chatIdArg mediaUrl hintsArg (Some True) = Inl VoiceDurationRequired)
    \<and> (fallbackFileName pf (resolveMediaSpec pf (trim mediaUrl) hintsArg) (trim mediaUrl) =
           (case orElse (hintFileName (hintsOf hintsArg))
                   (orElse (metaFileName (parseMediaUrlMeta pf (trim mediaUrl)))
                      (inferFileNameFromMediaUrl pf (trim mediaUrl))) of
              Some name \<Rightarrow> name
            | None \<Rightarrow>
                (case getFileExtension pf (trim mediaUrl) of
                   Some ext \<Rightarrow> if ext \<noteq> [] then ''file'' @ ext else ''file''
                 | None \<Rightarrow> ''file'')))
    \<and> (\<not> takenAsEmoji pf (trim mediaUrl) (hintsOf hintsArg)
         \<and> (hintAsVoice (hintsOf hintsArg) = Some True
            \<or> contentTypeStarts (hintsOf hintsArg) ''audio/''
            \<or> extensionIn
                 (getFileExtension pf
                    (case hintFileName (hintsOf hintsArg) of
                       Some n \<Rightarrow> n
                     | None \<Rightarrow> trim mediaUrl))
                 AUDIO_EXTS))
    \<and> (orElse (hintVoiceDuration (hintsOf hintsArg))
           (metaVoiceDuration (parseMediaUrlMeta pf (trim mediaUrl))) = None)"
proof -
  note sent = sendWechatMedia_voice [OF assms]
  have lenient: "sendWechatMedia pf chatIdArg mediaUrl hintsArg None =
           Inr (if fallbackFileName pf (resolveMediaSpec pf (trim mediaUrl) hintsArg)
                     (trim mediaUrl) = []
                then [Warned VoiceDurationMissingFallback, Warned MissingFileNameSkipped]
                else [Warned VoiceDurationMissingFallback,
                      CallSendFile target (trim mediaUrl)
                        (fallbackFileName pf (resolveMediaSpec pf (trim mediaUrl) hintsArg)
                           (trim mediaUrl)),
                      StatusLastOutbound])"
    by (simp add: sent afterEffects_def fallbackToFile_def Let_def)
  have unset: "sendWechatMedia pf chatIdArg mediaUrl hintsArg (Some False) =
           sendWechatMedia pf chatIdArg mediaUrl hintsArg None"
    by (simp add: sent)
  have strict: "sendWechatMedia pf chatIdArg mediaUrl hintsArg (Some True) = Inl VoiceDurationRequired"
    by (simp add: sent)
  have name: "fallbackFileName pf (resolveMediaSpec pf (trim mediaUrl) hintsArg) (trim mediaUrl) =
           (case orElse (hintFileName (hintsOf hintsArg))
                   (orElse (metaFileName (parseMediaUrlMeta pf (trim mediaUrl)))
                      (inferFileNameFromMediaUrl pf (trim mediaUrl))) of
              Some name \<Rightarrow> name
            | None \<Rightarrow>
                (case getFileExtension pf (trim mediaUrl) of
                   Some ext \<Rightarrow> if ext \<noteq> [] then ''file'' @ ext else ''file''
                 | None \<Rightarrow> ''file''))"
    by (simp add: fallbackFileName_def voice_fields(1) [OF assms(3)] orElse_def
        split: option.splits)
  have kind: "\<not> takenAsEmoji pf (trim mediaUrl) (hintsOf hintsArg)
         \<and> (hintAsVoice (hintsOf hintsArg) = Some True
            \<or> contentTypeStarts (hintsOf hintsArg) ''audio/''
            \<or> extensionIn
                 (getFileExtension pf
                    (case hintFileName (hintsOf hintsArg) of
                       Some n \<Rightarrow> n
                     | None \<Rightarrow> trim mediaUrl))
                 AUDIO_EXTS)"
    using assms(3) unfolding kind_voice by blast
  have duration: "orElse (hintVoiceDuration (hintsOf hintsArg))
           (metaVoiceDuration (parseMediaUrlMeta pf (trim mediaUrl))) = None"
    using assms(4) by (simp add: voice_fields(2) [OF assms(3)])
  from lenient unset strict name kind duration show ?thesis by blast
qed

text \<open>
  A reference with the content type \<open>Audio/MPEG\<close> and no duration, to a prefixed
  destination: the lenient call sends \<open>voice.mp3\<close> as a file, the strict call throws.
\<close>

theorem voice_without_duration_witness:
  "requireWechatOutboundTarget (Some ''wechat:wxid_friend'') = Inr ''wxid_friend''
   \<and> trim '' https://cdn.example.com/media/voice.mp3 '' \<noteq> []
   \<and> specKind (resolveMediaSpec examplePlatform ''https://cdn.example.com/media/voice.mp3''
                 (Some (noHints\<lparr>hintContentType := Some ''Audio/MPEG''\<rparr>))) = MediaVoice
   \<and> specVoiceDuration
        (resolveMediaSpec examplePlatform ''https://cdn.example.com/media/voice.mp3''
           (Some (noHints\<lparr>hintContentType := Some ''Audio/MPEG''\<rparr>))) = None
   \<and> sendWechatMedia examplePlatform ''wechat:wxid_friend''
        '' https://cdn.example.com/media/voice.mp3 ''
        (Some (noHints\<lparr>hintContentType := Some ''Audio/MPEG''\<rparr>)) None
      = Inr [Warned VoiceDurationMissingFallback,
             CallSendFile ''wxid_friend'' ''https://cdn.example.com/media/voice.mp3''
               ''voice.mp3'',
             StatusLastOutbound]
   \<and> sendWechatMedia examplePlatform ''wechat:wxid_friend''
        '' https://cdn.example.com/media/voice.mp3 ''
        (Some (noHints\<lparr>hintContentType := Some ''Audio/MPEG''\<rparr>)) (Some True)
      = Inl VoiceDurationRequired"
  using voice_without_duration [of "''wechat:wxid_friend''" "''wxid_friend''"
      "'' https://cdn.example.com/media/voice.mp3 ''" examplePlatform
      "Some (noHints\<lparr>hintContentType := Some ''Audio/MPEG''\<rparr>)"]
  by (simp add: media_defs eval_defs)

text \<open>
  Claim C7 as stated fails: a voice reference without a duration whose hinted file name
  is the empty string is not sent as a file in lenient mode, the send is skipped; and
  with a blank destination the lenient call throws.
\<close>

theorem voice_fallback_counterexample:
  "specKind (resolveMediaSpec examplePlatform ''https://cdn.example.com/media/voice.mp3''
               (Some (noHints\<lparr>hintAsVoice := Some True, hintFileName := Some []\<rparr>)))
     = MediaVoice
   \<and> specVoiceDuration
        (resolveMediaSpec examplePlatform ''https://cdn.example.com/media/voice.mp3''
           (Some (noHints\<lparr>hintAsVoice := Some True, hintFileName := Some []\<rparr>))) = None
   \<and> sendWechatMedia examplePlatform ''wxid_friend''
        ''https://cdn.example.com/media/voice.mp3''
        (Some (noHints\<lparr>hintAsVoice := Some True, hintFileName := Some []\<rparr>)) None
      = Inr [Warned VoiceDurationMissingFallback, Warned MissingFileNameSkipped]
   \<and> sendWechatMedia examplePlatform ''  ''
        ''https://cdn.example.com/media/voice.mp3''
        (Some (noHints\<lparr>hintContentType := Some ''audio/mpeg''\<rparr>)) None
      = Inl EmptyTarget"
  by (simp add: media_defs eval_defs)

end
